theory Spec2Isabelle
  imports Main "HOL-Library.Sublist" "HOL-Library.Word"
begin

unbundle bit_operations_syntax

section \<open>Data model\<close>

text \<open>
  The three format handlers of the repository (\<^verbatim>\<open>heic.ts\<close>, \<^verbatim>\<open>ani.ts\<close> and the
  meyda handler) are TypeScript classes implementing \<^verbatim>\<open>FormatHandler\<close>. A file name is a
  JavaScript string; it is modelled as a \<^typ>\<open>string\<close>, one \<^typ>\<open>char\<close> per code unit, so
  the names of the model are those whose code units are below 256. A \<^verbatim>\<open>Uint8Array\<close> is a
  list of bytes.
\<close>

type_synonym byte_array = "8 word list"

text \<open>
  \<^verbatim>\<open>FileFormat\<close>: the capability descriptor. The fields \<^verbatim>\<open>from\<close> and \<^verbatim>\<open>to\<close> are called
  \<open>from_flag\<close> and \<open>to_flag\<close> here. The descriptors of the meyda handler are object
  literals without \<^verbatim>\<open>category\<close> and \<^verbatim>\<open>lossless\<close>, hence the options.
\<close>

record FileFormat =
  name :: string
  format :: string
  extension :: string
  mime :: string
  from_flag :: bool
  to_flag :: bool
  internal :: string
  category :: "string option"
  lossless :: "bool option"

text \<open>\<^verbatim>\<open>FileData\<close>: a named byte buffer.\<close>

record FileData =
  name :: string
  bytes :: byte_array

text \<open>
  A value thrown by the code or by the host: an object with a \<^verbatim>\<open>message\<close> (an
  \<^verbatim>\<open>Error\<close>), or any other value, given by its string conversion (the handlers throw
  plain strings in places). \<open>cause_text\<close> is the expression
  \<^verbatim>\<open>err?.message ?? err\<close> inside a template string.
\<close>

datatype thrown = WithMessage string | Plain string

fun cause_text :: "thrown \<Rightarrow> string" where
  "cause_text (WithMessage m) = m"
| "cause_text (Plain s) = s"

text \<open>A \<^verbatim>\<open>Blob\<close>: bytes tagged with a MIME type.\<close>

datatype blob = Blob (blob_bytes: byte_array) (blob_type: string)

text \<open>The result of \<^verbatim>\<open>heic2any\<close>: \<^verbatim>\<open>Blob | Blob[]\<close>.\<close>

datatype heic2any_result = Single blob | Multiple "blob list"

text \<open>An \<^verbatim>\<open>ImageBitmap\<close>, as far as the handler reads it.\<close>

record ImageBitmap =
  width :: nat
  height :: nat
  image_data :: byte_array

text \<open>
  The calls a conversion makes to the external decode and encode capabilities, in the order
  made. Every conversion returns its result together with this list, so that "no codec is
  invoked" and "the call is not repeated" are statements about the model.
\<close>

datatype host_call =
    Call_heic2any blob string
  | Call_createImageBitmap blob
  | Call_toBlob string
  | Call_decodeAudioData byte_array

type_synonym conversion = "(thrown + FileData list) \<times> host_call list"

text \<open>
  The host of the HEIC handler: the \<^verbatim>\<open>heic2any\<close> library (called with the blob and the
  target type; the quality is the constant 0.92), \<^verbatim>\<open>createImageBitmap\<close>,
  \<^verbatim>\<open>canvas.getContext("2d")\<close> (whether a context is obtained, for a canvas of the given
  width and height) and \<^verbatim>\<open>canvas.toBlob\<close> (on the canvas holding the drawn bitmap, with
  the target type; \<open>None\<close> is \<^verbatim>\<open>null\<close>).
\<close>

record heic_host =
  heic2any :: "blob \<Rightarrow> string \<Rightarrow> thrown + heic2any_result"
  createImageBitmap :: "blob \<Rightarrow> thrown + ImageBitmap"
  getContext :: "nat \<Rightarrow> nat \<Rightarrow> bool"
  toBlob :: "ImageBitmap \<Rightarrow> string \<Rightarrow> blob option"

section \<open>Strings\<close>

definition dquote :: string where
  "dquote = [CHR 0x22]"

text \<open>ASCII lower case: what the \<^verbatim>\<open>i\<close> flag of a regular expression without the
  \<^verbatim>\<open>u\<close> flag identifies with an ASCII letter is only its other case.\<close>

definition ascii_lower :: "char \<Rightarrow> char" where
  "ascii_lower c =
     (case map_of (zip ''ABCDEFGHIJKLMNOPQRSTUVWXYZ'' ''abcdefghijklmnopqrstuvwxyz'') c of
        Some l \<Rightarrow> l
      | None \<Rightarrow> c)"

text \<open>\<^verbatim>\<open>s.replace(/\.(heic|heif)$/i, "")\<close>\<close>

definition strip_heic_ext :: "string \<Rightarrow> string" where
  "strip_heic_ext s =
     (let n = length s; tail = map ascii_lower (drop (n - 5) s)
      in if tail = ''.heic'' \<or> tail = ''.heif'' then take (n - 5) s else s)"

text \<open>\<^verbatim>\<open>s.replace(/\.[^.]+$/, "")\<close>: the last dot and what follows it, when something
  follows it.\<close>

definition strip_last_ext :: "string \<Rightarrow> string" where
  "strip_last_ext s =
     (let ext = rev (takeWhile (\<lambda>c. c \<noteq> CHR ''.'') (rev s))
      in if length ext < length s \<and> ext \<noteq> [] then take (length s - length ext - 1) s else s)"

text \<open>\<^verbatim>\<open>s.split(".")[0]\<close>: what stands before the first dot.\<close>

definition split_dot_first :: "string \<Rightarrow> string" where
  "split_dot_first s = takeWhile (\<lambda>c. c \<noteq> CHR ''.'') s"

text \<open>\<^verbatim>\<open>String(n)\<close> for a non-negative integer, and \<^verbatim>\<open>padStart\<close>.\<close>

definition digit_char :: "nat \<Rightarrow> char" where
  "digit_char d = ''0123456789'' ! d"

fun String_of_nat :: "nat \<Rightarrow> string" where
  "String_of_nat n =
     (if n < 10 then [digit_char n] else String_of_nat (n div 10) @ [digit_char (n mod 10)])"

definition padStart :: "nat \<Rightarrow> char \<Rightarrow> string \<Rightarrow> string" where
  "padStart w c s = replicate (w - length s) c @ s"

section \<open>The HEIC handler\<close>

record HEICHandler =
  name :: string
  supportedFormats :: "FileFormat list"
  ready :: bool

text \<open>\<^verbatim>\<open>init\<close> sets the readiness flag and nothing else.\<close>

definition HEICHandler_init :: "HEICHandler \<Rightarrow> HEICHandler" where
  "HEICHandler_init h = h\<lparr>HEICHandler.ready := True\<rparr>"

text \<open>
  The \<^verbatim>\<open>for (const inputFile of inputFiles)\<close> loop of the handlers: the body either throws,
  which ends the conversion, or pushes files onto \<^verbatim>\<open>outputFiles\<close>. The body is given as
  a function from the input file to what it throws or pushes, with the host calls it made.
\<close>

fun for_inputFiles ::
  "(FileData \<Rightarrow> conversion) \<Rightarrow> FileData list \<Rightarrow> FileData list \<Rightarrow> host_call list \<Rightarrow> conversion"
where
  "for_inputFiles body [] outputFiles calls = (Inr outputFiles, calls)"
| "for_inputFiles body (inputFile # rest) outputFiles calls =
     (case body inputFile of
        (Inl err, made) \<Rightarrow> (Inl err, calls @ made)
      | (Inr pushed, made) \<Rightarrow> for_inputFiles body rest (outputFiles @ pushed) (calls @ made))"

text \<open>The files one decoded input gives (the source's lines 88 to 106).\<close>

definition decoded_files :: "string \<Rightarrow> FileFormat \<Rightarrow> blob list \<Rightarrow> FileData list" where
  "decoded_files inputName outputFormat blobs =
     (let baseName = strip_heic_ext inputName
      in if length blobs = 1
         then [\<lparr>FileData.name = baseName @ ''.'' @ extension outputFormat,
                bytes = blob_bytes (blobs ! 0)\<rparr>]
         else map (\<lambda>i. \<lparr>FileData.name =
                           baseName @ ''_'' @ padStart 3 (CHR ''0'') (String_of_nat (i + 1))
                             @ ''.'' @ extension outputFormat,
                         bytes = blob_bytes (blobs ! i)\<rparr>)
                [0 ..< length blobs])"

definition decodeHeic_body :: "heic_host \<Rightarrow> FileFormat \<Rightarrow> FileFormat \<Rightarrow> FileData \<Rightarrow> conversion" where
  "decodeHeic_body H inputFormat outputFormat inputFile =
     (let inputBlob = Blob (bytes inputFile) (mime inputFormat);
          toType = mime outputFormat;
          made = [Call_heic2any inputBlob toType]
      in case heic2any H inputBlob toType of
           Inl err \<Rightarrow>
             (Inl (WithMessage (''Could not decode HEIC/HEIF file '' @ dquote
                     @ FileData.name inputFile @ dquote @ '': '' @ cause_text err)), made)
         | Inr result \<Rightarrow>
             (Inr (decoded_files (FileData.name inputFile) outputFormat
                     (case result of Multiple bs \<Rightarrow> bs | Single b \<Rightarrow> [b])), made))"

definition decodeHeic :: "heic_host \<Rightarrow> FileData list \<Rightarrow> FileFormat \<Rightarrow> FileFormat \<Rightarrow> conversion" where
  "decodeHeic H inputFiles inputFormat outputFormat =
     for_inputFiles (decodeHeic_body H inputFormat outputFormat) inputFiles [] []"

definition not_supported_message :: string where
  "not_supported_message =
     ''HEIC/HEIF encoding is not supported in this browser. ''
     @ ''Native encoding requires Safari on macOS (High Sierra or later) or iOS (11 or later). ''
     @ ''Consider converting to PNG or JPEG instead.''"

definition encodeHeic_body :: "heic_host \<Rightarrow> FileFormat \<Rightarrow> FileFormat \<Rightarrow> FileData \<Rightarrow> conversion" where
  "encodeHeic_body H inputFormat outputFormat inputFile =
     (let inputBlob = Blob (bytes inputFile) (mime inputFormat)
      in case createImageBitmap H inputBlob of
           Inl err \<Rightarrow>
             (Inl (WithMessage (''Could not decode source image '' @ dquote
                     @ FileData.name inputFile @ dquote @ '': '' @ cause_text err)),
              [Call_createImageBitmap inputBlob])
         | Inr bitmap \<Rightarrow>
             if \<not> getContext H (width bitmap) (height bitmap)
             then (Inl (WithMessage ''Failed to obtain 2D canvas context.''),
                   [Call_createImageBitmap inputBlob])
             else (case toBlob H bitmap (mime outputFormat) of
                     None \<Rightarrow>
                       (Inl (WithMessage not_supported_message),
                        [Call_createImageBitmap inputBlob, Call_toBlob (mime outputFormat)])
                   | Some outputBlob \<Rightarrow>
                       (Inr [\<lparr>FileData.name =
                                strip_last_ext (FileData.name inputFile) @ ''.''
                                  @ extension outputFormat,
                              bytes = blob_bytes outputBlob\<rparr>],
                        [Call_createImageBitmap inputBlob, Call_toBlob (mime outputFormat)])))"

definition encodeHeic :: "heic_host \<Rightarrow> FileData list \<Rightarrow> FileFormat \<Rightarrow> FileFormat \<Rightarrow> conversion" where
  "encodeHeic H inputFiles inputFormat outputFormat =
     for_inputFiles (encodeHeic_body H inputFormat outputFormat) inputFiles [] []"

definition isHeic :: "FileFormat \<Rightarrow> bool" where
  "isHeic f = (internal f = ''heic'' \<or> internal f = ''heif'')"

text \<open>\<^verbatim>\<open>doConvert\<close> never reads \<^verbatim>\<open>this\<close>; the handler is an argument all the same.\<close>

definition HEICHandler_doConvert ::
  "heic_host \<Rightarrow> HEICHandler \<Rightarrow> FileData list \<Rightarrow> FileFormat \<Rightarrow> FileFormat \<Rightarrow> conversion"
where
  "HEICHandler_doConvert H this inputFiles inputFormat outputFormat =
     (let isHeicInput = isHeic inputFormat; isHeicOutput = isHeic outputFormat
      in if isHeicInput \<and> \<not> isHeicOutput then decodeHeic H inputFiles inputFormat outputFormat
         else if \<not> isHeicInput \<and> isHeicOutput then encodeHeic H inputFiles inputFormat outputFormat
         else (Inr (map (\<lambda>f. \<lparr>FileData.name = FileData.name f, bytes = bytes f\<rparr>) inputFiles),
               []))"

section \<open>The ANI handler\<close>

record aniHandler =
  name :: string
  supportedFormats :: "FileFormat list option"
  ready :: bool

definition new_aniHandler :: aniHandler where
  "new_aniHandler = \<lparr>aniHandler.name = ''ani'', supportedFormats = None, ready = False\<rparr>"

definition ico_format :: FileFormat where
  "ico_format =
     \<lparr>FileFormat.name = ''Microsoft Windows ICO'', format = ''ico'', extension = ''ico'',
      mime = ''image/vnd.microsoft.icon'', from_flag = True, to_flag = True,
      internal = ''ico'', category = Some ''image'', lossless = Some False\<rparr>"

definition ani_format :: FileFormat where
  "ani_format =
     \<lparr>FileFormat.name = ''Microsoft Windows ANI'', format = ''ani'', extension = ''ani'',
      mime = ''application/x-navi-animation'', from_flag = True, to_flag = True,
      internal = ''ico'', category = Some ''image'', lossless = Some False\<rparr>"

text \<open>
  \<^verbatim>\<open>init\<close> assigns the list of three descriptors. The first one,
  \<^verbatim>\<open>CommonFormats.PNG.supported("apng", true, true)\<close>, comes from a module that is not part
  of the sources and is a parameter here.
\<close>

definition aniHandler_init :: "FileFormat \<Rightarrow> aniHandler \<Rightarrow> aniHandler" where
  "aniHandler_init png_apng this =
     this\<lparr>aniHandler.supportedFormats := Some [png_apng, ico_format, ani_format],
          aniHandler.ready := True\<rparr>"

text \<open>
  \<^verbatim>\<open>doConvert\<close> of this class has no model: the text of the method is not a TypeScript
  program. After \<^verbatim>\<open>return outputFiles;\<close> it goes on with four branches written
  \<^verbatim>\<open>if (...) }\<close>, a closing brace where the opening one belongs, so the module is refused
  by the parser and the method has no run to describe.
\<close>

section \<open>The meyda handler\<close>

record meydaHandler =
  name :: string
  supportedFormats :: "FileFormat list"
  ready :: bool
  audioContext :: bool
  canvas :: bool
  ctx :: bool

definition png_format :: FileFormat where
  "png_format =
     \<lparr>FileFormat.name = ''Portable Network Graphics'', format = ''png'', extension = ''png'',
      mime = ''image/png'', from_flag = False, to_flag = True,
      internal = ''png'', category = None, lossless = None\<rparr>"

definition jpeg_format :: FileFormat where
  "jpeg_format =
     \<lparr>FileFormat.name = ''Joint Photographic Experts Group JFIF'', format = ''jpeg'',
      extension = ''jpg'', mime = ''image/jpeg'', from_flag = False, to_flag = True,
      internal = ''jpeg'', category = None, lossless = None\<rparr>"

definition webp_format :: FileFormat where
  "webp_format =
     \<lparr>FileFormat.name = ''WebP'', format = ''webp'', extension = ''webp'',
      mime = ''image/webp'', from_flag = False, to_flag = True,
      internal = ''webp'', category = None, lossless = None\<rparr>"

definition wav_format :: FileFormat where
  "wav_format =
     \<lparr>FileFormat.name = ''Waveform Audio File Format'', format = ''wav'', extension = ''wav'',
      mime = ''audio/wav'', from_flag = True, to_flag = False,
      internal = ''wav'', category = None, lossless = None\<rparr>"

definition mp3_format :: FileFormat where
  "mp3_format =
     \<lparr>FileFormat.name = ''MP3 Audio'', format = ''mp3'', extension = ''mp3'',
      mime = ''audio/mpeg'', from_flag = True, to_flag = False,
      internal = ''mp3'', category = None, lossless = None\<rparr>"

definition ogg_format :: FileFormat where
  "ogg_format =
     \<lparr>FileFormat.name = ''Ogg Audio'', format = ''ogg'', extension = ''ogg'',
      mime = ''audio/ogg'', from_flag = True, to_flag = False,
      internal = ''ogg'', category = None, lossless = None\<rparr>"

definition flac_format :: FileFormat where
  "flac_format =
     \<lparr>FileFormat.name = ''Free Lossless Audio Codec'', format = ''flac'', extension = ''flac'',
      mime = ''audio/flac'', from_flag = True, to_flag = False,
      internal = ''flac'', category = None, lossless = None\<rparr>"

text \<open>The handler as the class's field initialisers leave it.\<close>

definition new_meydaHandler :: meydaHandler where
  "new_meydaHandler =
     \<lparr>meydaHandler.name = ''meyda'',
      supportedFormats = [png_format, jpeg_format, webp_format],
      ready = False, audioContext = False, canvas = False, ctx = False\<rparr>"

text \<open>
  The host of the meyda handler. \<open>'s\<close> is the type of a sample (a 32-bit float, which is
  not modelled): \<^verbatim>\<open>canPlayType\<close> answers with a string, empty for "no";
  \<^verbatim>\<open>new AudioContext()\<close> may throw; \<^verbatim>\<open>getContext("2d")\<close> may give \<^verbatim>\<open>null\<close>;
  \<^verbatim>\<open>decodeAudioData\<close> rejects or gives the sample rate and channel 0;
  \<^verbatim>\<open>Meyda.windowing\<close> and \<^verbatim>\<open>Meyda.extract\<close> are the library's (\<open>None\<close>: the
  result is not a \<^verbatim>\<open>Float32Array\<close>), called with the buffer size and the sample rate set
  before; \<open>floor_scaled v\<close> is \<^verbatim>\<open>Math.floor(v * 16777215)\<close>, \<open>None\<close> when that is not a
  finite number; \<open>ImageData_new\<close> is what the \<^verbatim>\<open>ImageData\<close> constructor throws, if it
  does, for a pixel array of this length and this height; \<open>canvas_toBlob\<close> encodes a canvas
  of the given width and height on which the listed columns were put.
\<close>

record 's AudioBuffer =
  sampleRate :: nat
  channelData0 :: "'s list"

record 's meyda_host =
  canPlayType :: "string \<Rightarrow> string"
  new_AudioContext :: "thrown option"
  getContext2d :: bool
  decodeAudioData :: "byte_array \<Rightarrow> thrown + 's AudioBuffer"
  Meyda_windowing :: "'s list \<Rightarrow> 's list"
  Meyda_extract :: "nat \<Rightarrow> nat \<Rightarrow> 's list \<Rightarrow> 's list option"
  floor_scaled :: "'s \<Rightarrow> int option"
  ImageData_new :: "nat \<Rightarrow> nat \<Rightarrow> thrown option"
  canvas_toBlob :: "nat \<Rightarrow> nat \<Rightarrow> (nat \<times> byte_array) list \<Rightarrow> string \<Rightarrow> byte_array option"

text \<open>The audio descriptors \<^verbatim>\<open>init\<close> pushes, in the order of its four tests.\<close>

definition probed_formats :: "'s meyda_host \<Rightarrow> FileFormat list" where
  "probed_formats H =
     (if canPlayType H ''audio/wav'' \<noteq> [] then [wav_format] else [])
     @ (if canPlayType H ''audio/mpeg'' \<noteq> [] then [mp3_format] else [])
     @ (if canPlayType H ''audio/ogg'' \<noteq> [] then [ogg_format] else [])
     @ (if canPlayType H ''audio/flac'' \<noteq> [] then [flac_format] else [])"

text \<open>\<^verbatim>\<open>init\<close>: what it throws, if it does, and the handler it leaves.\<close>

definition meydaHandler_init :: "'s meyda_host \<Rightarrow> meydaHandler \<Rightarrow> thrown option \<times> meydaHandler" where
  "meydaHandler_init H this =
     (let this1 = this\<lparr>meydaHandler.supportedFormats :=
                        meydaHandler.supportedFormats this @ probed_formats H\<rparr>
      in case new_AudioContext H of
           Some err \<Rightarrow> (Some err, this1)
         | None \<Rightarrow>
             (let this2 = this1\<lparr>audioContext := True, canvas := True\<rparr>
              in if getContext2d H
                 then (None, this2\<lparr>ctx := True, meydaHandler.ready := True\<rparr>)
                 else (Some (Plain ''Failed to create 2D rendering context.''), this2)))"

text \<open>The handler after \<open>n\<close> runs of \<^verbatim>\<open>init\<close> on the same host.\<close>

fun probes :: "'s meyda_host \<Rightarrow> nat \<Rightarrow> meydaHandler \<Rightarrow> meydaHandler" where
  "probes M 0 this = this"
| "probes M (Suc n) this = snd (meydaHandler_init M (probes M n this))"

text \<open>One pixel: the four bytes written for a spectrum value, with the 32-bit integer
  conversions of \<^verbatim>\<open>&\<close> and \<^verbatim>\<open>>>\<close>.\<close>

definition pixel_bytes :: "int option \<Rightarrow> byte_array" where
  "pixel_bytes v =
     (let int32 = (case v of None \<Rightarrow> 0 | Some i \<Rightarrow> (word_of_int i :: 32 word))
      in [ucast (int32 AND 0xFF),
          ucast (signed_drop_bit 8 int32 AND 0xFF),
          ucast (signed_drop_bit 16 int32 AND 0xFF),
          0xFF])"

text \<open>One column of the image: the body of the loop over \<open>i\<close>.\<close>

definition column :: "'s meyda_host \<Rightarrow> nat \<Rightarrow> nat \<Rightarrow> nat \<Rightarrow> 's list \<Rightarrow> nat \<Rightarrow> thrown + byte_array" where
  "column H bufferSize rate imageHeight samples i =
     (let frame = take bufferSize (drop (i * bufferSize) samples);
          filtered = Meyda_windowing H frame
      in case Meyda_extract H bufferSize rate filtered of
           None \<Rightarrow> Inl (Plain ''Failed to extract audio features!'')
         | Some spectrum \<Rightarrow>
             (let px = concat (map (\<lambda>v. pixel_bytes (floor_scaled H v)) spectrum)
              in case ImageData_new H (length px) imageHeight of
                   Some err \<Rightarrow> Inl err
                 | None \<Rightarrow> Inr px))"

fun put_columns ::
  "'s meyda_host \<Rightarrow> nat \<Rightarrow> nat \<Rightarrow> nat \<Rightarrow> 's list \<Rightarrow> nat list \<Rightarrow> (nat \<times> byte_array) list
     \<Rightarrow> thrown + (nat \<times> byte_array) list"
where
  "put_columns H bufferSize rate imageHeight samples [] put = Inr put"
| "put_columns H bufferSize rate imageHeight samples (i # rest) put =
     (case column H bufferSize rate imageHeight samples i of
        Inl err \<Rightarrow> Inl err
      | Inr px \<Rightarrow>
          put_columns H bufferSize rate imageHeight samples rest (put @ [(i, px)]))"

definition meyda_body :: "'s meyda_host \<Rightarrow> FileFormat \<Rightarrow> FileData \<Rightarrow> conversion" where
  "meyda_body H outputFormat inputFile =
     (let inputBytes = bytes inputFile
      in case decodeAudioData H inputBytes of
           Inl err \<Rightarrow> (Inl err, [Call_decodeAudioData inputBytes])
         | Inr audioData \<Rightarrow>
             (let bufferSize = 2048;
                  samples = channelData0 audioData;
                  imageWidth = length samples div bufferSize;
                  imageHeight = bufferSize div 2
              in case put_columns H bufferSize (sampleRate audioData) imageHeight samples
                        [0 ..< imageWidth] [] of
                   Inl err \<Rightarrow> (Inl err, [Call_decodeAudioData inputBytes])
                 | Inr put \<Rightarrow>
                     (case canvas_toBlob H imageWidth imageHeight put (mime outputFormat) of
                        None \<Rightarrow>
                          (Inl (Plain ''Canvas output failed.''),
                           [Call_decodeAudioData inputBytes, Call_toBlob (mime outputFormat)])
                      | Some buf \<Rightarrow>
                          (Inr [\<lparr>FileData.name =
                                   split_dot_first (FileData.name inputFile) @ ''.''
                                     @ extension outputFormat,
                                 bytes = buf\<rparr>],
                           [Call_decodeAudioData inputBytes,
                            Call_toBlob (mime outputFormat)]))))"

definition meydaHandler_doConvert ::
  "'s meyda_host \<Rightarrow> meydaHandler \<Rightarrow> FileData list \<Rightarrow> FileFormat \<Rightarrow> FileFormat \<Rightarrow> conversion"
where
  "meydaHandler_doConvert H this inputFiles inputFormat outputFormat =
     (if \<not> meydaHandler.ready this \<or> \<not> audioContext this \<or> \<not> canvas this \<or> \<not> ctx this
      then (Inl (Plain ''Handler not initialized!''), [])
      else for_inputFiles (meyda_body H outputFormat) inputFiles [] [])"

section \<open>Notions of the specification\<close>

text \<open>
  The predicates below are not code: they say what the specification's sentences mean, and
  the theorems compare the handlers with them.
\<close>

text \<open>An output file is the input file re-tagged to the output descriptor: the same bytes
  under a name that carries the descriptor's extension.\<close>

definition retagged :: "FileFormat \<Rightarrow> FileData \<Rightarrow> FileData \<Rightarrow> bool" where
  "retagged outputFormat input output =
     (bytes output = bytes input \<and> suffix (''.'' @ extension outputFormat) (FileData.name output))"

text \<open>The known extension of the HEIC family: a dot and the letters of \<^verbatim>\<open>heic\<close> or
  \<^verbatim>\<open>heif\<close>, each in either case.\<close>

definition known_ext :: "string \<Rightarrow> bool" where
  "known_ext e =
     list_all2 (\<lambda>c alternatives. c \<in> set alternatives) e [''.'', ''hH'', ''eE'', ''iI'', ''cCfF'']"

text \<open>Decimal numerals: their characters and their value.\<close>

definition is_digit :: "char \<Rightarrow> bool" where
  "is_digit c = (c \<in> set ''0123456789'')"

definition digit_value :: "char \<Rightarrow> nat" where
  "digit_value c =
     (case map_of (zip ''0123456789'' [0, 1, 2, 3, 4, 5, 6, 7, 8, 9]) c of
        Some d \<Rightarrow> d
      | None \<Rightarrow> 0)"

definition nat_of_decimal :: "string \<Rightarrow> nat" where
  "nat_of_decimal s = foldl (\<lambda>acc c. 10 * acc + digit_value c) 0 s"

text \<open>A message names a format when the tag of one of the formats the three handlers
  declare stands in it, in any letter case.\<close>

definition format_tags :: "string list" where
  "format_tags = [''png'', ''jpeg'', ''jpg'', ''webp'', ''heic'', ''heif'', ''apng'', ''ico'',
     ''ani'', ''wav'', ''mp3'', ''ogg'', ''flac'']"

definition names_a_format :: "string \<Rightarrow> bool" where
  "names_a_format msg = list_ex (\<lambda>tag. sublist tag (map ascii_lower msg)) format_tags"

text \<open>An image descriptor and an audio descriptor, told by the MIME type (the meyda
  handler's descriptors have no category).\<close>

definition is_image :: "FileFormat \<Rightarrow> bool" where
  "is_image d = prefix ''image/'' (mime d)"

definition is_audio :: "FileFormat \<Rightarrow> bool" where
  "is_audio d = prefix ''audio/'' (mime d)"

section \<open>Example inputs\<close>

text \<open>
  The descriptors of the HEIC handler are built by \<^verbatim>\<open>CommonFormats\<close>, which is not part of
  the sources; \<open>example_format key m\<close> is a descriptor with internal key \<open>key\<close> and MIME
  type \<open>m\<close>, allowed in both directions.
\<close>

definition example_format :: "string \<Rightarrow> string \<Rightarrow> FileFormat" where
  "example_format key m =
     \<lparr>FileFormat.name = key, format = key, extension = key, mime = m, from_flag = True,
      to_flag = True, internal = key, category = Some ''image'', lossless = Some False\<rparr>"

text \<open>
  A host for the examples: \<^verbatim>\<open>heic2any\<close> rejects an empty file, gives one image for a
  file of one byte and one frame per byte otherwise; \<^verbatim>\<open>createImageBitmap\<close> rejects an empty
  file; the canvas cannot encode \<^verbatim>\<open>image/heic\<close>.
\<close>

definition example_heic_host :: heic_host where
  "example_heic_host =
     \<lparr>heic2any = (\<lambda>b toType. case blob_bytes b of
                      [] \<Rightarrow> Inl (WithMessage ''ERR_LIBHEIF format not supported'')
                    | [x] \<Rightarrow> Inr (Single (Blob [x] toType))
                    | x # y # zs \<Rightarrow> Inr (Multiple (map (\<lambda>z. Blob [z] toType) (x # y # zs)))),
      createImageBitmap = (\<lambda>b. if blob_bytes b = []
                    then Inl (WithMessage ''The source image could not be decoded.'')
                    else Inr \<lparr>width = 1, height = 1, image_data = blob_bytes b\<rparr>),
      getContext = (\<lambda>w h. True),
      toBlob = (\<lambda>bitmap toType. if toType = ''image/heic'' then None
                    else Some (Blob (image_data bitmap) toType))\<rparr>"

text \<open>A host whose \<^verbatim>\<open>heic2any\<close> finds a burst of 1000 frames in every file.\<close>

definition burst_heic_host :: heic_host where
  "burst_heic_host =
     example_heic_host\<lparr>heic2any := (\<lambda>b toType. Inr (Multiple (replicate 1000 (Blob [] toType))))\<rparr>"

definition example_HEICHandler :: HEICHandler where
  "example_HEICHandler =
     \<lparr>HEICHandler.name = ''heic2any'',
      supportedFormats =
        [example_format ''heic'' ''image/heic'', example_format ''heif'' ''image/heif'',
         example_format ''png'' ''image/png'', example_format ''jpeg'' ''image/jpeg'',
         example_format ''webp'' ''image/webp''],
      ready = False\<rparr>"

text \<open>
  A host for the meyda handler, with integers for samples: it plays WAV and MP3 only;
  decoding rejects an empty file and gives 1024 samples per byte otherwise; the canvas
  encodes nothing when its width is 0.
\<close>

definition example_meyda_host :: "int meyda_host" where
  "example_meyda_host =
     \<lparr>canPlayType = (\<lambda>m. if m = ''audio/wav'' \<or> m = ''audio/mpeg'' then ''maybe'' else []),
      new_AudioContext = None,
      getContext2d = True,
      decodeAudioData = (\<lambda>bs. if bs = [] then Inl (WithMessage ''Unable to decode audio data'')
                    else Inr \<lparr>sampleRate = 44100, channelData0 = replicate (1024 * length bs) 0\<rparr>),
      Meyda_windowing = (\<lambda>frame. frame),
      Meyda_extract = (\<lambda>bufferSize rate frame. Some (take (bufferSize div 2) frame)),
      floor_scaled = (\<lambda>v. Some (v * 16777215)),
      ImageData_new = (\<lambda>len h. if len = 4 * h then None else Some (WithMessage ''IndexSizeError'')),
      canvas_toBlob = (\<lambda>w h put toType. if w = 0 then None else Some [0x89, 0x50])\<rparr>"

text \<open>The meyda handler after a successful \<^verbatim>\<open>init\<close> on that host.\<close>

definition ready_meydaHandler :: meydaHandler where
  "ready_meydaHandler = snd (meydaHandler_init example_meyda_host new_meydaHandler)"

section \<open>Lemmas\<close>

declare String_of_nat.simps [simp del]

subsection \<open>The loop over the input files\<close>

lemma for_inputFiles_acc:
  "for_inputFiles body fs outs calls =
     (case for_inputFiles body fs [] [] of
        (Inl e, c) \<Rightarrow> (Inl e, calls @ c)
      | (Inr ys, c) \<Rightarrow> (Inr (outs @ ys), calls @ c))"
proof (induction fs arbitrary: outs calls)
  case Nil
  show ?case by simp
next
  case (Cons f fs)
  obtain r made where b: "body f = (r, made)" by (cases "body f")
  show ?case
  proof (cases r)
    case (Inl e)
    with b show ?thesis by simp
  next
    case (Inr pushed)
    have 1: "for_inputFiles body (f # fs) outs calls
              = for_inputFiles body fs (outs @ pushed) (calls @ made)"
      using b Inr by simp
    have 2: "for_inputFiles body (f # fs) [] [] = for_inputFiles body fs pushed made"
      using b Inr by simp
    show ?thesis
      unfolding 1 2
      by (subst Cons.IH[of "outs @ pushed" "calls @ made"], subst Cons.IH[of pushed made])
         (simp split: prod.splits sum.splits)
  qed
qed

lemma for_inputFiles_append:
  "for_inputFiles body (xs @ ys) outs calls =
     (case for_inputFiles body xs outs calls of
        (Inl e, c) \<Rightarrow> (Inl e, c)
      | (Inr zs, c) \<Rightarrow> for_inputFiles body ys zs c)"
  by (induction xs arbitrary: outs calls) (auto split: prod.splits sum.splits)

text \<open>When the files before, the file itself and the files after are converted, so is the
  batch, and the outputs and the calls follow each other in the order of the files.\<close>

lemma for_inputFiles_ok_through:
  assumes "for_inputFiles body before [] [] = (Inr pre, c1)"
    and "body f = (Inr pushed, made)"
    and "for_inputFiles body after [] [] = (Inr post, c3)"
  shows "for_inputFiles body (before @ f # after) [] []
           = (Inr (pre @ pushed @ post), c1 @ made @ c3)"
proof -
  have "for_inputFiles body (before @ f # after) [] []
          = for_inputFiles body after (pre @ pushed) (c1 @ made)"
    using assms(1,2) by (simp add: for_inputFiles_append)
  also have "\<dots> = (Inr ((pre @ pushed) @ post), (c1 @ made) @ c3)"
    using assms(3) by (subst for_inputFiles_acc) simp
  finally show ?thesis by simp
qed

text \<open>The first file whose body throws ends the conversion, after the calls made so far.\<close>

lemma for_inputFiles_fail_at:
  assumes "for_inputFiles body before [] [] = (Inr pre, c1)"
    and "body f = (Inl e, made)"
  shows "for_inputFiles body (before @ f # after) [] [] = (Inl e, c1 @ made)"
  using assms by (simp add: for_inputFiles_append)

subsection \<open>Names\<close>

lemma ascii_lower_cases:
  "ascii_lower c = c
   \<or> (c, ascii_lower c)
       \<in> set (zip ''ABCDEFGHIJKLMNOPQRSTUVWXYZ'' ''abcdefghijklmnopqrstuvwxyz'')"
proof (cases "map_of (zip ''ABCDEFGHIJKLMNOPQRSTUVWXYZ'' ''abcdefghijklmnopqrstuvwxyz'') c")
  case None
  then show ?thesis by (simp add: ascii_lower_def)
next
  case (Some l)
  then have "ascii_lower c = l" by (simp add: ascii_lower_def)
  then show ?thesis using map_of_SomeD[OF Some] by simp
qed

text \<open>What \<open>ascii_lower\<close> sends to a letter of the extension is that letter in one of its
  two cases, and the dot comes from the dot only.\<close>

lemma ascii_lower_dot: "(ascii_lower c = CHR ''.'') = (c \<in> set ''.'')"
  using ascii_lower_cases[of c] by (auto simp: ascii_lower_def)

lemma ascii_lower_h: "(ascii_lower c = CHR ''h'') = (c \<in> set ''hH'')"
  using ascii_lower_cases[of c] by (auto simp: ascii_lower_def)

lemma ascii_lower_e: "(ascii_lower c = CHR ''e'') = (c \<in> set ''eE'')"
  using ascii_lower_cases[of c] by (auto simp: ascii_lower_def)

lemma ascii_lower_i: "(ascii_lower c = CHR ''i'') = (c \<in> set ''iI'')"
  using ascii_lower_cases[of c] by (auto simp: ascii_lower_def)

lemma ascii_lower_c: "(ascii_lower c = CHR ''c'') = (c \<in> set ''cC'')"
  using ascii_lower_cases[of c] by (auto simp: ascii_lower_def)

lemma ascii_lower_f: "(ascii_lower c = CHR ''f'') = (c \<in> set ''fF'')"
  using ascii_lower_cases[of c] by (auto simp: ascii_lower_def)

lemma map_eq_five:
  "(map f xs = [a0, a1, a2, a3, a4])
     = (\<exists>c0 c1 c2 c3 c4. xs = [c0, c1, c2, c3, c4]
          \<and> f c0 = a0 \<and> f c1 = a1 \<and> f c2 = a2 \<and> f c3 = a3 \<and> f c4 = a4)"
  by (auto simp: map_eq_Cons_conv)

lemma list_all2_five:
  "list_all2 P xs [a0, a1, a2, a3, a4]
     = (\<exists>c0 c1 c2 c3 c4. xs = [c0, c1, c2, c3, c4]
          \<and> P c0 a0 \<and> P c1 a1 \<and> P c2 a2 \<and> P c3 a3 \<and> P c4 a4)"
  by (auto simp: list_all2_Cons2)

text \<open>The regular expression \<^verbatim>\<open>/\.(heic|heif)$/i\<close> accepts the known extensions and
  nothing else.\<close>

lemma known_ext_lower:
  "known_ext e = (map ascii_lower e = ''.heic'' \<or> map ascii_lower e = ''.heif'')"
proof -
  have "known_ext e
      = (\<exists>c0 c1 c2 c3 c4. e = [c0, c1, c2, c3, c4]
          \<and> c0 \<in> set ''.'' \<and> c1 \<in> set ''hH'' \<and> c2 \<in> set ''eE'' \<and> c3 \<in> set ''iI''
          \<and> c4 \<in> set ''cCfF'')"
    unfolding known_ext_def by (rule list_all2_five)
  also have "\<dots> = (\<exists>c0 c1 c2 c3 c4. e = [c0, c1, c2, c3, c4]
          \<and> ascii_lower c0 = CHR ''.'' \<and> ascii_lower c1 = CHR ''h''
          \<and> ascii_lower c2 = CHR ''e'' \<and> ascii_lower c3 = CHR ''i''
          \<and> (ascii_lower c4 = CHR ''c'' \<or> ascii_lower c4 = CHR ''f''))"
    unfolding ascii_lower_dot ascii_lower_h ascii_lower_e ascii_lower_i ascii_lower_c
      ascii_lower_f
    by auto
  also have "\<dots> = (map ascii_lower e = ''.heic'' \<or> map ascii_lower e = ''.heif'')"
    unfolding map_eq_five by blast
  finally show ?thesis .
qed

lemma known_ext_length: "known_ext e \<Longrightarrow> length e = 5"
  by (auto simp: known_ext_def dest: list_all2_lengthD)

lemma strip_heic_ext_known:
  assumes "known_ext e"
  shows "strip_heic_ext (b @ e) = b"
  using assms known_ext_length[OF assms]
  by (auto simp: strip_heic_ext_def known_ext_lower)

lemma strip_heic_ext_other:
  assumes "\<not> known_ext (drop (length s - 5) s)"
  shows "strip_heic_ext s = s"
  using assms by (auto simp: strip_heic_ext_def Let_def known_ext_lower)

text \<open>So the base name is the name without its known extension, and the whole name when
  it ends in none.\<close>

lemma strip_heic_ext_base:
  assumes "s = base @ e"
    and "known_ext e \<or> e = [] \<and> (\<nexists>b' e'. s = b' @ e' \<and> known_ext e')"
  shows "strip_heic_ext s = base"
proof (cases "known_ext e")
  case True
  then show ?thesis using assms(1) by (simp add: strip_heic_ext_known)
next
  case False
  then have none: "e = []" "\<nexists>b' e'. s = b' @ e' \<and> known_ext e'" using assms(2) by auto
  have "\<not> known_ext (drop (length s - 5) s)"
  proof
    assume "known_ext (drop (length s - 5) s)"
    moreover have "s = take (length s - 5) s @ drop (length s - 5) s" by simp
    ultimately show False using none(2) by blast
  qed
  then show ?thesis using none(1) assms(1) by (simp add: strip_heic_ext_other)
qed

subsection \<open>Decimal numerals\<close>

lemma digit_cases:
  assumes "d < (10::nat)"
  shows "d = 0 \<or> d = 1 \<or> d = 2 \<or> d = 3 \<or> d = 4 \<or> d = 5 \<or> d = 6 \<or> d = 7 \<or> d = 8 \<or> d = 9"
  using assms by arith

lemma digit_char_is_digit: "d < 10 \<Longrightarrow> is_digit (digit_char d)"
  using digit_cases[of d] by (auto simp: is_digit_def digit_char_def)

lemma digit_value_digit_char: "d < 10 \<Longrightarrow> digit_value (digit_char d) = d"
  using digit_cases[of d] by (auto simp: digit_value_def digit_char_def)

lemma String_of_nat_digits: "list_all is_digit (String_of_nat n)"
proof (induction n rule: String_of_nat.induct)
  case (1 n)
  show ?case
  proof (cases "n < 10")
    case True
    then show ?thesis by (subst String_of_nat.simps) (simp add: digit_char_is_digit)
  next
    case False
    with 1 show ?thesis by (subst String_of_nat.simps) (simp add: digit_char_is_digit)
  qed
qed

lemma nat_of_decimal_snoc: "nat_of_decimal (s @ [c]) = 10 * nat_of_decimal s + digit_value c"
  by (simp add: nat_of_decimal_def)

lemma nat_of_decimal_String_of_nat: "nat_of_decimal (String_of_nat n) = n"
proof (induction n rule: String_of_nat.induct)
  case (1 n)
  show ?case
  proof (cases "n < 10")
    case True
    then show ?thesis
      by (subst String_of_nat.simps) (simp add: nat_of_decimal_def digit_value_digit_char)
  next
    case False
    then have "nat_of_decimal (String_of_nat (n div 10)) = n div 10" using 1 by simp
    with False show ?thesis
      by (subst String_of_nat.simps) (simp add: nat_of_decimal_snoc digit_value_digit_char)
  qed
qed

lemma nat_of_decimal_zeros: "nat_of_decimal (replicate k (CHR ''0'') @ s) = nat_of_decimal s"
proof -
  have z: "digit_value (CHR ''0'') = 0" by (simp add: digit_value_def)
  have "foldl (\<lambda>acc c. 10 * acc + digit_value c) 0 (replicate k (CHR ''0'')) = 0"
    by (induction k) (simp_all add: z)
  then show ?thesis by (simp add: nat_of_decimal_def)
qed

lemma String_of_nat_length_small: "n < 1000 \<Longrightarrow> length (String_of_nat n) \<le> 3"
  by (subst String_of_nat.simps, subst String_of_nat.simps, subst String_of_nat.simps) auto

lemma String_of_nat_nonempty: "String_of_nat n \<noteq> []"
  by (subst String_of_nat.simps) simp

lemma String_of_nat_length_large: "1000 \<le> n \<Longrightarrow> 4 \<le> length (String_of_nat n)"
proof -
  assume n: "1000 \<le> n"
  have ge: "\<not> k < 10 \<Longrightarrow> length (String_of_nat k) = Suc (length (String_of_nat (k div 10)))"
    for k by (subst String_of_nat.simps) simp
  have "\<not> n < 10" "\<not> n div 10 < 10" "\<not> n div 10 div 10 < 10" using n by auto
  then have "length (String_of_nat n) = Suc (Suc (Suc (length (String_of_nat (n div 10 div 10 div 10)))))"
    by (simp add: ge)
  moreover have "1 \<le> length (String_of_nat (n div 10 div 10 div 10))"
    using String_of_nat_nonempty[of "n div 10 div 10 div 10"]
    by (cases "String_of_nat (n div 10 div 10 div 10)") auto
  ultimately show ?thesis by linarith
qed

lemma digit_char_nonzero: "0 < d \<Longrightarrow> d < 10 \<Longrightarrow> digit_char d \<noteq> CHR ''0''"
  using digit_cases[of d] by (auto simp: digit_char_def)

lemma String_of_nat_no_leading_zero: "0 < n \<Longrightarrow> hd (String_of_nat n) \<noteq> CHR ''0''"
proof (induction n rule: String_of_nat.induct)
  case (1 n)
  show ?case
  proof (cases "n < 10")
    case True
    with 1(2) show ?thesis by (subst String_of_nat.simps) (simp add: digit_char_nonzero)
  next
    case False
    then have "hd (String_of_nat (n div 10)) \<noteq> CHR ''0''" using 1(1) by simp
    with False show ?thesis
      by (subst String_of_nat.simps) (simp add: String_of_nat_nonempty)
  qed
qed

lemma padStart_length: "length (padStart w c s) = max w (length s)"
  by (simp add: padStart_def)

subsection \<open>The branches of the HEIC handler\<close>

lemma decodeHeic_body_ok:
  assumes "heic2any H (Blob (bytes f) (mime inF)) (mime outF) = Inr result"
  shows "decodeHeic_body H inF outF f =
           (Inr (decoded_files (FileData.name f) outF
                   (case result of Multiple bs \<Rightarrow> bs | Single b \<Rightarrow> [b])),
            [Call_heic2any (Blob (bytes f) (mime inF)) (mime outF)])"
  using assms by (simp add: decodeHeic_body_def)

lemma decodeHeic_body_fail:
  assumes "heic2any H (Blob (bytes f) (mime inF)) (mime outF) = Inl err"
  shows "decodeHeic_body H inF outF f =
           (Inl (WithMessage (''Could not decode HEIC/HEIF file '' @ dquote
                     @ FileData.name f @ dquote @ '': '' @ cause_text err)),
            [Call_heic2any (Blob (bytes f) (mime inF)) (mime outF)])"
  using assms by (simp add: decodeHeic_body_def)

lemma doConvert_decode:
  assumes "isHeic inF" and "\<not> isHeic outF"
  shows "HEICHandler_doConvert H this files inF outF
           = for_inputFiles (decodeHeic_body H inF outF) files [] []"
  using assms by (simp add: HEICHandler_doConvert_def decodeHeic_def)

lemma doConvert_encode:
  assumes "\<not> isHeic inF" and "isHeic outF"
  shows "HEICHandler_doConvert H this files inF outF
           = for_inputFiles (encodeHeic_body H inF outF) files [] []"
  using assms by (simp add: HEICHandler_doConvert_def encodeHeic_def)

text \<open>The sequence number: decimal digits of the right value, three of them below 1000
  and the number's own digits from 1000 on.\<close>

lemma sequence_number:
  "list_all is_digit (padStart 3 (CHR ''0'') (String_of_nat n))
   \<and> nat_of_decimal (padStart 3 (CHR ''0'') (String_of_nat n)) = n
   \<and> (n < 1000 \<longrightarrow> length (padStart 3 (CHR ''0'') (String_of_nat n)) = 3)
   \<and> (1000 \<le> n \<longrightarrow> 4 \<le> length (padStart 3 (CHR ''0'') (String_of_nat n))
                      \<and> hd (padStart 3 (CHR ''0'') (String_of_nat n)) \<noteq> CHR ''0'')"
proof -
  have "list_all is_digit (replicate k (CHR ''0''))" for k
    by (induction k) (simp_all add: is_digit_def)
  then have 1: "list_all is_digit (padStart 3 (CHR ''0'') (String_of_nat n))"
    by (simp add: padStart_def String_of_nat_digits)
  have 2: "nat_of_decimal (padStart 3 (CHR ''0'') (String_of_nat n)) = n"
    by (simp add: padStart_def nat_of_decimal_zeros nat_of_decimal_String_of_nat)
  have 3: "n < 1000 \<longrightarrow> length (padStart 3 (CHR ''0'') (String_of_nat n)) = 3"
    using String_of_nat_length_small[of n] by (auto simp: padStart_length)
  have 4: "1000 \<le> n \<longrightarrow> 4 \<le> length (padStart 3 (CHR ''0'') (String_of_nat n))
                      \<and> hd (padStart 3 (CHR ''0'') (String_of_nat n)) \<noteq> CHR ''0''"
  proof
    assume n: "1000 \<le> n"
    then have "padStart 3 (CHR ''0'') (String_of_nat n) = String_of_nat n"
      using String_of_nat_length_large[of n] by (simp add: padStart_def)
    then show "4 \<le> length (padStart 3 (CHR ''0'') (String_of_nat n))
                      \<and> hd (padStart 3 (CHR ''0'') (String_of_nat n)) \<noteq> CHR ''0''"
      using n String_of_nat_length_large[of n] String_of_nat_no_leading_zero[of n] by simp
  qed
  show ?thesis using 1 2 3 4 by blast
qed

text \<open>The files of a burst, one by one.\<close>

lemma decoded_files_burst:
  assumes "1 < length blobs"
  shows "length (decoded_files inputName outputFormat blobs) = length blobs"
    and "i < length blobs \<Longrightarrow>
         decoded_files inputName outputFormat blobs ! i
           = \<lparr>FileData.name = strip_heic_ext inputName @ ''_''
                 @ padStart 3 (CHR ''0'') (String_of_nat (i + 1)) @ ''.''
                 @ extension outputFormat,
              bytes = blob_bytes (blobs ! i)\<rparr>"
  using assms by (simp_all add: decoded_files_def)

lemma doConvert_meyda_ready:
  assumes "meydaHandler.ready this" "audioContext this" "canvas this" "ctx this"
  shows "meydaHandler_doConvert M this fs inF outF
           = for_inputFiles (meyda_body M outF) fs [] []"
  using assms by (simp add: meydaHandler_doConvert_def)

subsection \<open>The example handlers\<close>

lemma ready_meydaHandler_eq:
  "ready_meydaHandler =
     \<lparr>meydaHandler.name = ''meyda'',
      supportedFormats = [png_format, jpeg_format, webp_format, wav_format, mp3_format],
      ready = True, audioContext = True, canvas = True, ctx = True\<rparr>"
  by (simp add: ready_meydaHandler_def meydaHandler_init_def new_meydaHandler_def
      example_meyda_host_def probed_formats_def)

lemma pixel_bytes_length: "length (pixel_bytes v) = 4"
  by (simp add: pixel_bytes_def Let_def)

lemma meyda_body_decode_fail:
  assumes "decodeAudioData M (bytes f) = Inl err"
  shows "meyda_body M outF f = (Inl err, [Call_decodeAudioData (bytes f)])"
  using assms by (simp add: meyda_body_def)

lemma meyda_body_toBlob_fail:
  assumes "decodeAudioData M (bytes f) = Inr audio"
    and "put_columns M 2048 (sampleRate audio) 1024 (channelData0 audio)
           [0 ..< length (channelData0 audio) div 2048] [] = Inr put"
    and "canvas_toBlob M (length (channelData0 audio) div 2048) 1024 put (mime outF) = None"
  shows "meyda_body M outF f =
           (Inl (Plain ''Canvas output failed.''),
            [Call_decodeAudioData (bytes f), Call_toBlob (mime outF)])"
  using assms by (simp add: meyda_body_def)

lemma encodeHeic_body_toBlob_fail:
  assumes "createImageBitmap H (Blob (bytes f) (mime inF)) = Inr bitmap"
    and "getContext H (width bitmap) (height bitmap)"
    and "toBlob H bitmap (mime outF) = None"
  shows "encodeHeic_body H inF outF f =
           (Inl (WithMessage not_supported_message),
            [Call_createImageBitmap (Blob (bytes f) (mime inF)), Call_toBlob (mime outF)])"
  using assms by (simp add: encodeHeic_body_def)

subsection \<open>Probing\<close>

lemma meydaHandler_init_formats:
  "meydaHandler.supportedFormats (snd (meydaHandler_init M this))
     = meydaHandler.supportedFormats this @ probed_formats M"
  by (simp add: meydaHandler_init_def Let_def split: option.splits)

lemma probes_formats:
  "set (meydaHandler.supportedFormats (probes M n this))
     \<subseteq> set (meydaHandler.supportedFormats this) \<union> set (probed_formats M)"
  by (induction n) (auto simp: meydaHandler_init_formats)

lemma probed_formats_cases:
  assumes "d \<in> set (probed_formats M)"
  shows "d = wav_format \<and> canPlayType M ''audio/wav'' \<noteq> []
       \<or> d = mp3_format \<and> canPlayType M ''audio/mpeg'' \<noteq> []
       \<or> d = ogg_format \<and> canPlayType M ''audio/ogg'' \<noteq> []
       \<or> d = flac_format \<and> canPlayType M ''audio/flac'' \<noteq> []"
  using assms by (auto simp: probed_formats_def split: if_splits)

section \<open>The claims\<close>

text \<open>
  C1. Passthrough, when input and output descriptor both have an internal key of the HEIC
  family. As amended: the handler returns the input files themselves, that is, for each
  input file a file with the same bytes and the same, unchanged name, and makes no call to
  a decode or encode capability.
\<close>

theorem passthrough_copies:
  assumes "isHeic inputFormat" and "isHeic outputFormat"
  shows "HEICHandler_doConvert H this inputFiles inputFormat outputFormat = (Inr inputFiles, [])"
proof -
  have "(\<lambda>f. \<lparr>FileData.name = FileData.name f, bytes = bytes f\<rparr>) = (\<lambda>f. f)"
    by (rule ext) simp
  then show ?thesis using assms by (simp add: HEICHandler_doConvert_def)
qed

theorem passthrough_copies_witness:
  "isHeic (example_format ''heic'' ''image/heic'') \<and> isHeic (example_format ''heif'' ''image/heif'')
   \<and> HEICHandler_doConvert example_heic_host example_HEICHandler
        [\<lparr>FileData.name = ''photo.heic'', bytes = [1, 2, 3]\<rparr>]
        (example_format ''heic'' ''image/heic'') (example_format ''heif'' ''image/heif'')
      = (Inr [\<lparr>FileData.name = ''photo.heic'', bytes = [1, 2, 3]\<rparr>], [])"
  using passthrough_copies [of "example_format ''heic'' ''image/heic''"
      "example_format ''heif'' ''image/heif''" example_heic_host example_HEICHandler
      "[\<lparr>FileData.name = ''photo.heic'', bytes = [1, 2, 3]\<rparr>]"]
  by (simp add: isHeic_def example_format_def)

text \<open>
  C1 as stated fails: converting \<^verbatim>\<open>photo.heic\<close> from \<^verbatim>\<open>heic\<close> to \<^verbatim>\<open>heif\<close> gives one file,
  and it is not re-tagged to the output descriptor (its name is still \<^verbatim>\<open>photo.heic\<close>).
\<close>

theorem passthrough_retag_counterexample:
  "isHeic (example_format ''heic'' ''image/heic'') \<and> isHeic (example_format ''heif'' ''image/heif'')
   \<and> (\<exists>out. fst (HEICHandler_doConvert example_heic_host example_HEICHandler
        [\<lparr>FileData.name = ''photo.heic'', bytes = [1, 2, 3]\<rparr>]
        (example_format ''heic'' ''image/heic'') (example_format ''heif'' ''image/heif'')) = Inr [out]
      \<and> \<not> retagged (example_format ''heif'' ''image/heif'')
             \<lparr>FileData.name = ''photo.heic'', bytes = [1, 2, 3]\<rparr> out)"
  by (simp add: HEICHandler_doConvert_def isHeic_def example_format_def retagged_def
      suffix_to_prefix)

text \<open>
  C2. A pair that is neither decode nor encode nor passthrough must fail with a classification
  error. The HEIC handler does not: asked to convert \<^verbatim>\<open>a.png\<close> from \<^verbatim>\<open>png\<close> to \<^verbatim>\<open>jpeg\<close>
  (neither key is of the HEIC family), it falls into the branch its comment reserves for
  HEIC to HEIC and returns the file unchanged, without an error.
\<close>

theorem unclassified_pair_passes_through:
  "\<not> isHeic (example_format ''png'' ''image/png'') \<and> \<not> isHeic (example_format ''jpeg'' ''image/jpeg'')
   \<and> HEICHandler_doConvert example_heic_host example_HEICHandler
        [\<lparr>FileData.name = ''a.png'', bytes = [1, 2, 3]\<rparr>]
        (example_format ''png'' ''image/png'') (example_format ''jpeg'' ''image/jpeg'')
      = (Inr [\<lparr>FileData.name = ''a.png'', bytes = [1, 2, 3]\<rparr>], [])"
  by (simp add: HEICHandler_doConvert_def isHeic_def example_format_def)

text \<open>
  C3. The readiness gate. As amended: in the meyda handler, whenever the readiness flag is
  false, the conversion fails with \<^verbatim>\<open>Handler not initialized!\<close>, whatever the batch and the
  formats, before any call to the host.
\<close>

theorem meyda_readiness_gate:
  assumes "\<not> meydaHandler.ready this"
  shows "meydaHandler_doConvert H this inputFiles inputFormat outputFormat
           = (Inl (Plain ''Handler not initialized!''), [])"
  using assms by (simp add: meydaHandler_doConvert_def)

theorem meyda_readiness_gate_witness:
  "\<not> meydaHandler.ready new_meydaHandler
   \<and> meydaHandler_doConvert example_meyda_host new_meydaHandler
        [\<lparr>FileData.name = ''a.wav'', bytes = [1]\<rparr>]
        wav_format png_format = (Inl (Plain ''Handler not initialized!''), [])"
  using meyda_readiness_gate [of new_meydaHandler example_meyda_host]
  by (simp add: new_meydaHandler_def)

text \<open>
  C3 as stated, for every unit, fails: the HEIC handler whose readiness flag is false
  converts \<^verbatim>\<open>photo.heic\<close> to \<^verbatim>\<open>png\<close> and returns the output.
\<close>

theorem heic_readiness_counterexample:
  "\<not> HEICHandler.ready example_HEICHandler
   \<and> fst (HEICHandler_doConvert example_heic_host example_HEICHandler
        [\<lparr>FileData.name = ''photo.heic'', bytes = [7]\<rparr>]
        (example_format ''heic'' ''image/heic'') (example_format ''png'' ''image/png''))
      = Inr [\<lparr>FileData.name = ''photo.png'', bytes = [7]\<rparr>]"
  by (simp add: HEICHandler_doConvert_def isHeic_def example_format_def example_HEICHandler_def
      decodeHeic_def decodeHeic_body_def example_heic_host_def decoded_files_def
      strip_heic_ext_def ascii_lower_def)

text \<open>
  C4. Fan-out naming in the decode branch. As amended: when \<^verbatim>\<open>heic2any\<close> gives \<open>N > 1\<close>
  buffers for an input file, and the files before and after it are converted, the
  conversion succeeds and its output holds, between the files of the inputs before and
  those of the inputs after, \<open>N\<close> files in the order of the frames. File \<open>i\<close> (from 0) has
  the bytes of frame \<open>i\<close> and the name \<^verbatim>\<open><base>_<NNN>.<extension>\<close>: \<^verbatim>\<open><base>\<close> is the input's
  name without its known extension, and \<open>NNN\<close> is the number \<open>i + 1\<close> in decimal digits,
  padded with zeros to three characters. It has exactly three characters for the frames 1
  to 999; from frame 1000 on it is the number as it is, four characters or more and no
  leading zero.
\<close>

theorem decode_fanout_naming:
  assumes "isHeic inputFormat" and "\<not> isHeic outputFormat"
    and "HEICHandler_doConvert H this before inputFormat outputFormat = (Inr pre, made)"
    and "heic2any H (Blob (bytes inputFile) (mime inputFormat)) (mime outputFormat)
           = Inr (Multiple blobs)"
    and "1 < length blobs"
    and "HEICHandler_doConvert H this after inputFormat outputFormat = (Inr post, later)"
    and "FileData.name inputFile = base @ e"
    and "known_ext e
         \<or> e = [] \<and> (\<nexists>b' e'. FileData.name inputFile = b' @ e' \<and> known_ext e')"
  shows "\<exists>seg.
           HEICHandler_doConvert H this (before @ inputFile # after) inputFormat outputFormat
             = (Inr (pre @ seg @ post),
                made @ [Call_heic2any (Blob (bytes inputFile) (mime inputFormat))
                          (mime outputFormat)] @ later)
         \<and> length seg = length blobs
         \<and> (\<forall>i<length blobs. \<exists>NNN.
               FileData.name (seg ! i) = base @ ''_'' @ NNN @ ''.'' @ extension outputFormat
             \<and> list_all is_digit NNN \<and> nat_of_decimal NNN = i + 1
             \<and> (i + 1 < 1000 \<longrightarrow> length NNN = 3)
             \<and> (1000 \<le> i + 1 \<longrightarrow> 4 \<le> length NNN \<and> hd NNN \<noteq> CHR ''0'')
             \<and> bytes (seg ! i) = blob_bytes (blobs ! i))"
proof -
  let ?body = "decodeHeic_body H inputFormat outputFormat"
  let ?seg = "decoded_files (FileData.name inputFile) outputFormat blobs"
  let ?call = "Call_heic2any (Blob (bytes inputFile) (mime inputFormat)) (mime outputFormat)"
  have body: "?body inputFile = (Inr ?seg, [?call])"
    using decodeHeic_body_ok[OF assms(4)] by simp
  have pre: "for_inputFiles ?body before [] [] = (Inr pre, made)"
    using assms(1-3) by (simp add: doConvert_decode)
  have post: "for_inputFiles ?body after [] [] = (Inr post, later)"
    using assms(1,2,6) by (simp add: doConvert_decode)
  have run: "HEICHandler_doConvert H this (before @ inputFile # after) inputFormat outputFormat
      = (Inr (pre @ ?seg @ post), made @ [?call] @ later)"
    using for_inputFiles_ok_through[OF pre body post] assms(1,2) by (simp add: doConvert_decode)
  have base: "strip_heic_ext (FileData.name inputFile) = base"
    using strip_heic_ext_base[OF assms(7,8)] .
  have each: "\<exists>NNN. FileData.name (?seg ! i) = base @ ''_'' @ NNN @ ''.'' @ extension outputFormat
             \<and> list_all is_digit NNN \<and> nat_of_decimal NNN = i + 1
             \<and> (i + 1 < 1000 \<longrightarrow> length NNN = 3)
             \<and> (1000 \<le> i + 1 \<longrightarrow> 4 \<le> length NNN \<and> hd NNN \<noteq> CHR ''0'')
             \<and> bytes (?seg ! i) = blob_bytes (blobs ! i)" if "i < length blobs" for i
    using sequence_number[of "i + 1"] decoded_files_burst(2)[OF assms(5) that] base
    by (intro exI[of _ "padStart 3 (CHR ''0'') (String_of_nat (i + 1))"]) simp
  have "length ?seg = length blobs" using decoded_files_burst(1)[OF assms(5)] .
  then show ?thesis using run each by blast
qed

theorem decode_fanout_naming_witness:
  "(isHeic (example_format ''heic'' ''image/heic'')
      \<and> \<not> isHeic (example_format ''png'' ''image/png'')
      \<and> HEICHandler_doConvert example_heic_host example_HEICHandler
           [\<lparr>FileData.name = ''one.heic'', bytes = [5]\<rparr>]
           (example_format ''heic'' ''image/heic'') (example_format ''png'' ''image/png'')
         = (Inr [\<lparr>FileData.name = ''one.png'', bytes = [5]\<rparr>],
            [Call_heic2any (Blob [5] ''image/heic'') ''image/png''])
      \<and> heic2any example_heic_host (Blob [10, 20, 30] ''image/heic'') ''image/png''
         = Inr (Multiple [Blob [10] ''image/png'', Blob [20] ''image/png'',
                          Blob [30] ''image/png''])
      \<and> HEICHandler_doConvert example_heic_host example_HEICHandler
           [\<lparr>FileData.name = ''two.heic'', bytes = [6]\<rparr>]
           (example_format ''heic'' ''image/heic'') (example_format ''png'' ''image/png'')
         = (Inr [\<lparr>FileData.name = ''two.png'', bytes = [6]\<rparr>],
            [Call_heic2any (Blob [6] ''image/heic'') ''image/png''])
      \<and> known_ext ''.HEIC'')
   \<and> HEICHandler_doConvert example_heic_host example_HEICHandler
        ([\<lparr>FileData.name = ''one.heic'', bytes = [5]\<rparr>]
           @ \<lparr>FileData.name = ''my.photo.HEIC'', bytes = [10, 20, 30]\<rparr>
           # [\<lparr>FileData.name = ''two.heic'', bytes = [6]\<rparr>])
        (example_format ''heic'' ''image/heic'') (example_format ''png'' ''image/png'')
      = (Inr [\<lparr>FileData.name = ''one.png'', bytes = [5]\<rparr>,
              \<lparr>FileData.name = ''my.photo_001.png'', bytes = [10]\<rparr>,
              \<lparr>FileData.name = ''my.photo_002.png'', bytes = [20]\<rparr>,
              \<lparr>FileData.name = ''my.photo_003.png'', bytes = [30]\<rparr>,
              \<lparr>FileData.name = ''two.png'', bytes = [6]\<rparr>],
         [Call_heic2any (Blob [5] ''image/heic'') ''image/png'',
          Call_heic2any (Blob [10, 20, 30] ''image/heic'') ''image/png'',
          Call_heic2any (Blob [6] ''image/heic'') ''image/png''])
   \<and> (\<exists>seg.
         HEICHandler_doConvert example_heic_host example_HEICHandler
           ([\<lparr>FileData.name = ''one.heic'', bytes = [5]\<rparr>]
              @ \<lparr>FileData.name = ''my.photo.HEIC'', bytes = [10, 20, 30]\<rparr>
              # [\<lparr>FileData.name = ''two.heic'', bytes = [6]\<rparr>])
           (example_format ''heic'' ''image/heic'') (example_format ''png'' ''image/png'')
         = (Inr ([\<lparr>FileData.name = ''one.png'', bytes = [5]\<rparr>] @ seg
                   @ [\<lparr>FileData.name = ''two.png'', bytes = [6]\<rparr>]),
            [Call_heic2any (Blob [5] ''image/heic'') ''image/png'']
              @ [Call_heic2any
                   (Blob (bytes \<lparr>FileData.name = ''my.photo.HEIC'', bytes = [10, 20, 30]\<rparr>)
                      (mime (example_format ''heic'' ''image/heic'')))
                   (mime (example_format ''png'' ''image/png''))]
              @ [Call_heic2any (Blob [6] ''image/heic'') ''image/png''])
       \<and> length seg
           = length [Blob [10] ''image/png'', Blob [20] ''image/png'', Blob [30] ''image/png'']
       \<and> (\<forall>i<length [Blob [10] ''image/png'', Blob [20] ''image/png'', Blob [30] ''image/png''].
            \<exists>NNN. FileData.name (seg ! i)
                 = ''my.photo'' @ ''_'' @ NNN @ ''.''
                     @ extension (example_format ''png'' ''image/png'')
             \<and> list_all is_digit NNN \<and> nat_of_decimal NNN = i + 1
             \<and> (i + 1 < 1000 \<longrightarrow> length NNN = 3)
             \<and> (1000 \<le> i + 1 \<longrightarrow> 4 \<le> length NNN \<and> hd NNN \<noteq> CHR ''0'')
             \<and> bytes (seg ! i)
                 = blob_bytes ([Blob [10] ''image/png'', Blob [20] ''image/png'',
                                Blob [30] ''image/png''] ! i)))"
proof -
  let ?heic = "example_format ''heic'' ''image/heic''"
  let ?png = "example_format ''png'' ''image/png''"
  let ?one = "\<lparr>FileData.name = ''one.heic'', bytes = [5]\<rparr>"
  let ?f = "\<lparr>FileData.name = ''my.photo.HEIC'', bytes = [10, 20, 30]\<rparr>"
  let ?two = "\<lparr>FileData.name = ''two.heic'', bytes = [6]\<rparr>"
  let ?blobs = "[Blob [10] ''image/png'', Blob [20] ''image/png'', Blob [30] ''image/png'']"
  note defs = HEICHandler_doConvert_def isHeic_def example_format_def decodeHeic_def
    decodeHeic_body_def example_heic_host_def decoded_files_def strip_heic_ext_def
    ascii_lower_def
  have a: "isHeic ?heic" and b: "\<not> isHeic ?png"
    by (simp_all add: isHeic_def example_format_def)
  have c: "HEICHandler_doConvert example_heic_host example_HEICHandler [?one] ?heic ?png
         = (Inr [\<lparr>FileData.name = ''one.png'', bytes = [5]\<rparr>],
            [Call_heic2any (Blob [5] ''image/heic'') ''image/png''])"
    by (simp add: defs)
  have d: "heic2any example_heic_host (Blob (bytes ?f) (mime ?heic)) (mime ?png)
         = Inr (Multiple ?blobs)"
    by (simp add: example_heic_host_def example_format_def)
  have d': "heic2any example_heic_host (Blob [10, 20, 30] ''image/heic'') ''image/png''
         = Inr (Multiple ?blobs)"
    by (simp add: example_heic_host_def)
  have e: "1 < length ?blobs" by simp
  have f: "HEICHandler_doConvert example_heic_host example_HEICHandler [?two] ?heic ?png
         = (Inr [\<lparr>FileData.name = ''two.png'', bytes = [6]\<rparr>],
            [Call_heic2any (Blob [6] ''image/heic'') ''image/png''])"
    by (simp add: defs)
  have g: "FileData.name ?f = ''my.photo'' @ ''.HEIC''" by simp
  have k: "known_ext ''.HEIC''" by (simp add: known_ext_def)
  have h: "known_ext ''.HEIC''
         \<or> ''.HEIC'' = [] \<and> (\<nexists>b' e'. FileData.name ?f = b' @ e' \<and> known_ext e')"
    using k by simp
  have whole: "HEICHandler_doConvert example_heic_host example_HEICHandler
        ([?one] @ ?f # [?two]) ?heic ?png
      = (Inr [\<lparr>FileData.name = ''one.png'', bytes = [5]\<rparr>,
              \<lparr>FileData.name = ''my.photo_001.png'', bytes = [10]\<rparr>,
              \<lparr>FileData.name = ''my.photo_002.png'', bytes = [20]\<rparr>,
              \<lparr>FileData.name = ''my.photo_003.png'', bytes = [30]\<rparr>,
              \<lparr>FileData.name = ''two.png'', bytes = [6]\<rparr>],
         [Call_heic2any (Blob [5] ''image/heic'') ''image/png'',
          Call_heic2any (Blob [10, 20, 30] ''image/heic'') ''image/png'',
          Call_heic2any (Blob [6] ''image/heic'') ''image/png''])"
    by (simp add: defs padStart_def String_of_nat.simps digit_char_def upt_rec_numeral
        numeral_2_eq_2)
  show ?thesis
    using a b c d' f k whole decode_fanout_naming [OF a b c d e f g h] by blast
qed

text \<open>
  C4 as stated fails for a burst of 1000 frames or more: frame 1000 of \<^verbatim>\<open>photo.heic\<close> is
  named \<^verbatim>\<open>photo_1000.png\<close>, and its sequence number has four characters, not three.
\<close>

theorem fanout_width_counterexample:
  "heic2any burst_heic_host (Blob [1] ''image/heic'') ''image/png''
     = Inr (Multiple (replicate 1000 (Blob [] ''image/png'')))
   \<and> (\<exists>outs. fst (HEICHandler_doConvert burst_heic_host example_HEICHandler
                    [\<lparr>FileData.name = ''photo.heic'', bytes = [1]\<rparr>]
                    (example_format ''heic'' ''image/heic'') (example_format ''png'' ''image/png''))
                = Inr outs
         \<and> length outs = 1000
         \<and> FileData.name (outs ! 999) = ''photo'' @ ''_'' @ ''1000'' @ ''.'' @ ''png''
         \<and> length ''1000'' \<noteq> 3)"
proof -
  let ?outs = "decoded_files ''photo.heic'' (example_format ''png'' ''image/png'')
                 (replicate 1000 (Blob [] ''image/png''))"
  have host: "heic2any burst_heic_host (Blob [1] ''image/heic'') ''image/png''
     = Inr (Multiple (replicate 1000 (Blob [] ''image/png'')))"
    by (simp add: burst_heic_host_def)
  have run: "fst (HEICHandler_doConvert burst_heic_host example_HEICHandler
                    [\<lparr>FileData.name = ''photo.heic'', bytes = [1]\<rparr>]
                    (example_format ''heic'' ''image/heic'') (example_format ''png'' ''image/png''))
                = Inr ?outs"
    by (simp add: HEICHandler_doConvert_def isHeic_def decodeHeic_def decodeHeic_body_def
        burst_heic_host_def example_format_def Let_def)
  have many: "1 < length (replicate 1000 (Blob [] ''image/png''))" by simp
  have len: "length ?outs = 1000"
    using decoded_files_burst(1)[OF many] by simp
  have "strip_heic_ext ''photo.heic'' = ''photo''"
    by (simp add: strip_heic_ext_def ascii_lower_def)
  moreover have "padStart 3 (CHR ''0'') (String_of_nat (999 + 1)) = ''1000''"
    by (simp add: padStart_def String_of_nat.simps digit_char_def)
  ultimately have name: "FileData.name (?outs ! 999) = ''photo'' @ ''_'' @ ''1000'' @ ''.'' @ ''png''"
    using decoded_files_burst(2)[OF many, of 999 "''photo.heic''"
        "example_format ''png'' ''image/png''"]
    by (simp add: example_format_def)
  show ?thesis using host run len name by auto
qed

text \<open>
  C5. An input that gives one output must be named \<^verbatim>\<open><base>.<extension>\<close>, the base being the
  input's name without its extension and with its interior dots. The meyda handler does
  not: it keeps what stands before the first dot, so \<^verbatim>\<open>my.song.wav\<close> and \<^verbatim>\<open>my.talk.wav\<close>
  both become \<^verbatim>\<open>my.png\<close>. Both branches of the HEIC handler keep the interior dots:
  \<^verbatim>\<open>my.song.heic\<close> decoded to \<^verbatim>\<open>png\<close> is \<^verbatim>\<open>my.song.png\<close>, and \<^verbatim>\<open>my.song.png\<close> encoded to
  \<^verbatim>\<open>heif\<close> is \<^verbatim>\<open>my.song.heif\<close>.
\<close>

theorem meyda_drops_interior_dots:
  "fst (meydaHandler_doConvert example_meyda_host ready_meydaHandler
         [\<lparr>FileData.name = ''my.song.wav'', bytes = [1, 2]\<rparr>,
          \<lparr>FileData.name = ''my.talk.wav'', bytes = [3, 4]\<rparr>] wav_format png_format)
     = Inr [\<lparr>FileData.name = ''my.png'', bytes = [0x89, 0x50]\<rparr>,
            \<lparr>FileData.name = ''my.png'', bytes = [0x89, 0x50]\<rparr>]
   \<and> fst (HEICHandler_doConvert example_heic_host example_HEICHandler
           [\<lparr>FileData.name = ''my.song.heic'', bytes = [7]\<rparr>]
           (example_format ''heic'' ''image/heic'') (example_format ''png'' ''image/png''))
     = Inr [\<lparr>FileData.name = ''my.song.png'', bytes = [7]\<rparr>]
   \<and> fst (HEICHandler_doConvert example_heic_host example_HEICHandler
           [\<lparr>FileData.name = ''my.song.png'', bytes = [7]\<rparr>]
           (example_format ''png'' ''image/png'') (example_format ''heif'' ''image/heif''))
     = Inr [\<lparr>FileData.name = ''my.song.heif'', bytes = [7]\<rparr>]"
proof -
  have 1: "fst (meydaHandler_doConvert example_meyda_host ready_meydaHandler
         [\<lparr>FileData.name = ''my.song.wav'', bytes = [1, 2]\<rparr>,
          \<lparr>FileData.name = ''my.talk.wav'', bytes = [3, 4]\<rparr>] wav_format png_format)
     = Inr [\<lparr>FileData.name = ''my.png'', bytes = [0x89, 0x50]\<rparr>,
            \<lparr>FileData.name = ''my.png'', bytes = [0x89, 0x50]\<rparr>]"
    by (simp add: ready_meydaHandler_eq meydaHandler_doConvert_def meyda_body_def
        example_meyda_host_def column_def pixel_bytes_length length_concat comp_def
        png_format_def split_dot_first_def sum_list_replicate)
  have 2: "fst (HEICHandler_doConvert example_heic_host example_HEICHandler
           [\<lparr>FileData.name = ''my.song.heic'', bytes = [7]\<rparr>]
           (example_format ''heic'' ''image/heic'') (example_format ''png'' ''image/png''))
     = Inr [\<lparr>FileData.name = ''my.song.png'', bytes = [7]\<rparr>]"
    by (simp add: HEICHandler_doConvert_def isHeic_def example_format_def decodeHeic_def
        decodeHeic_body_def example_heic_host_def decoded_files_def strip_heic_ext_def
        ascii_lower_def)
  have 3: "fst (HEICHandler_doConvert example_heic_host example_HEICHandler
           [\<lparr>FileData.name = ''my.song.png'', bytes = [7]\<rparr>]
           (example_format ''png'' ''image/png'') (example_format ''heif'' ''image/heif''))
     = Inr [\<lparr>FileData.name = ''my.song.heif'', bytes = [7]\<rparr>]"
    by (simp add: HEICHandler_doConvert_def isHeic_def example_format_def encodeHeic_def
        encodeHeic_body_def example_heic_host_def strip_last_ext_def)
  show ?thesis using 1 2 3 by simp
qed

theorem meyda_drops_interior_dots_witness:
  "fst (meydaHandler_doConvert example_meyda_host ready_meydaHandler
         [\<lparr>FileData.name = ''my.song.wav'', bytes = [1, 2]\<rparr>,
          \<lparr>FileData.name = ''my.talk.wav'', bytes = [3, 4]\<rparr>] wav_format png_format)
     = Inr [\<lparr>FileData.name = ''my.png'', bytes = [0x89, 0x50]\<rparr>,
            \<lparr>FileData.name = ''my.png'', bytes = [0x89, 0x50]\<rparr>]"
  by (rule meyda_drops_interior_dots [THEN conjunct1])

text \<open>
  C6. A rejected input. As amended: in the decode branch of the HEIC handler, when
  \<^verbatim>\<open>heic2any\<close> rejects the bytes of an input file (the files before it being converted),
  the conversion fails with the message
  \<^verbatim>\<open>Could not decode HEIC/HEIF file "<name>": <cause>\<close>, which contains the file's name and
  the cause the library reported; the library was called once for that file, as the last
  call, and no later file is looked at. In the meyda handler, when \<^verbatim>\<open>decodeAudioData\<close>
  rejects the bytes, the conversion fails with the very value the host threw, after one
  call for that file; the file's name is not added.
\<close>

theorem decode_failure_reported:
  "(isHeic inputFormat \<and> \<not> isHeic outputFormat
      \<and> HEICHandler_doConvert H this before inputFormat outputFormat = (Inr pre, made)
      \<and> heic2any H (Blob (bytes inputFile) (mime inputFormat)) (mime outputFormat) = Inl err
    \<longrightarrow> (\<exists>msg.
           HEICHandler_doConvert H this (before @ inputFile # after) inputFormat outputFormat
             = (Inl (WithMessage msg),
                made @ [Call_heic2any (Blob (bytes inputFile) (mime inputFormat))
                          (mime outputFormat)])
         \<and> msg = ''Could not decode HEIC/HEIF file '' @ dquote @ FileData.name inputFile
                    @ dquote @ '': '' @ cause_text err
         \<and> sublist (FileData.name inputFile) msg \<and> sublist (cause_text err) msg))
   \<and> (meydaHandler.ready that \<and> audioContext that \<and> canvas that \<and> ctx that
      \<and> meydaHandler_doConvert M that earlier audioFormat imageFormat = (Inr images, made_calls)
      \<and> decodeAudioData M (bytes audioFile) = Inl rejection
    \<longrightarrow> meydaHandler_doConvert M that (earlier @ audioFile # later) audioFormat imageFormat
          = (Inl rejection, made_calls @ [Call_decodeAudioData (bytes audioFile)]))"
proof (intro conjI impI)
  assume a: "isHeic inputFormat \<and> \<not> isHeic outputFormat
      \<and> HEICHandler_doConvert H this before inputFormat outputFormat = (Inr pre, made)
      \<and> heic2any H (Blob (bytes inputFile) (mime inputFormat)) (mime outputFormat) = Inl err"
  let ?body = "decodeHeic_body H inputFormat outputFormat"
  let ?msg = "''Could not decode HEIC/HEIF file '' @ dquote @ FileData.name inputFile
                    @ dquote @ '': '' @ cause_text err"
  have branch: "isHeic inputFormat" "\<not> isHeic outputFormat" using a by simp_all
  have pre: "for_inputFiles ?body before [] [] = (Inr pre, made)"
    using a branch by (simp add: doConvert_decode)
  have body: "?body inputFile = (Inl (WithMessage ?msg),
      [Call_heic2any (Blob (bytes inputFile) (mime inputFormat)) (mime outputFormat)])"
    using a decodeHeic_body_fail by blast
  have run: "HEICHandler_doConvert H this (before @ inputFile # after) inputFormat outputFormat
      = (Inl (WithMessage ?msg),
         made @ [Call_heic2any (Blob (bytes inputFile) (mime inputFormat)) (mime outputFormat)])"
    using for_inputFiles_fail_at[OF pre body] branch by (simp add: doConvert_decode)
  have n: "sublist (FileData.name inputFile) ?msg"
    using sublist_appendI[of "FileData.name inputFile"
        "''Could not decode HEIC/HEIF file '' @ dquote" "dquote @ '': '' @ cause_text err"]
    by simp
  have c: "sublist (cause_text err) ?msg"
    using sublist_append_leftI[of "cause_text err"
        "''Could not decode HEIC/HEIF file '' @ dquote @ FileData.name inputFile @ dquote @ '': ''"]
    by simp
  show "\<exists>msg.
           HEICHandler_doConvert H this (before @ inputFile # after) inputFormat outputFormat
             = (Inl (WithMessage msg),
                made @ [Call_heic2any (Blob (bytes inputFile) (mime inputFormat))
                          (mime outputFormat)])
         \<and> msg = ''Could not decode HEIC/HEIF file '' @ dquote @ FileData.name inputFile
                    @ dquote @ '': '' @ cause_text err
         \<and> sublist (FileData.name inputFile) msg \<and> sublist (cause_text err) msg"
    using run n c by blast
next
  assume a: "meydaHandler.ready that \<and> audioContext that \<and> canvas that \<and> ctx that
      \<and> meydaHandler_doConvert M that earlier audioFormat imageFormat = (Inr images, made_calls)
      \<and> decodeAudioData M (bytes audioFile) = Inl rejection"
  let ?body = "meyda_body M imageFormat"
  have conv: "meydaHandler_doConvert M that fs audioFormat imageFormat
           = for_inputFiles ?body fs [] []" for fs
    using a by (simp add: doConvert_meyda_ready)
  have pre: "for_inputFiles ?body earlier [] [] = (Inr images, made_calls)"
    using a conv by simp
  have body: "?body audioFile = (Inl rejection, [Call_decodeAudioData (bytes audioFile)])"
    using a meyda_body_decode_fail by blast
  show "meydaHandler_doConvert M that (earlier @ audioFile # later) audioFormat imageFormat
          = (Inl rejection, made_calls @ [Call_decodeAudioData (bytes audioFile)])"
    using for_inputFiles_fail_at[OF pre body] conv by simp
qed

theorem decode_failure_reported_witness:
  "(isHeic (example_format ''heic'' ''image/heic'')
      \<and> \<not> isHeic (example_format ''png'' ''image/png'')
      \<and> HEICHandler_doConvert example_heic_host example_HEICHandler
            [\<lparr>FileData.name = ''one.heic'', bytes = [5]\<rparr>]
            (example_format ''heic'' ''image/heic'') (example_format ''png'' ''image/png'')
          = (Inr [\<lparr>FileData.name = ''one.png'', bytes = [5]\<rparr>],
             [Call_heic2any (Blob [5] ''image/heic'') ''image/png''])
      \<and> heic2any example_heic_host (Blob [] ''image/heic'') ''image/png''
          = Inl (WithMessage ''ERR_LIBHEIF format not supported''))
   \<and> HEICHandler_doConvert example_heic_host example_HEICHandler
        ([\<lparr>FileData.name = ''one.heic'', bytes = [5]\<rparr>]
           @ \<lparr>FileData.name = ''bad.heic'', bytes = []\<rparr>
           # [\<lparr>FileData.name = ''two.heic'', bytes = [6]\<rparr>])
        (example_format ''heic'' ''image/heic'') (example_format ''png'' ''image/png'')
      = (Inl (WithMessage (''Could not decode HEIC/HEIF file '' @ dquote @ ''bad.heic''
                @ dquote @ '': ERR_LIBHEIF format not supported'')),
         [Call_heic2any (Blob [5] ''image/heic'') ''image/png'',
          Call_heic2any (Blob [] ''image/heic'') ''image/png''])
   \<and> (meydaHandler.ready ready_meydaHandler
      \<and> decodeAudioData example_meyda_host [] = Inl (WithMessage ''Unable to decode audio data''))
   \<and> meydaHandler_doConvert example_meyda_host ready_meydaHandler
        ([] @ \<lparr>FileData.name = ''song.wav'', bytes = []\<rparr> # []) wav_format png_format
      = (Inl (WithMessage ''Unable to decode audio data''), [Call_decodeAudioData []])"
proof -
  let ?heic = "example_format ''heic'' ''image/heic''"
  let ?png = "example_format ''png'' ''image/png''"
  let ?one = "\<lparr>FileData.name = ''one.heic'', bytes = [5]\<rparr>"
  let ?bad = "\<lparr>FileData.name = ''bad.heic'', bytes = []\<rparr>"
  let ?two = "\<lparr>FileData.name = ''two.heic'', bytes = [6]\<rparr>"
  let ?song = "\<lparr>FileData.name = ''song.wav'', bytes = []\<rparr>"
  have branch: "isHeic ?heic \<and> \<not> isHeic ?png"
    by (simp add: isHeic_def example_format_def)
  have pre: "HEICHandler_doConvert example_heic_host example_HEICHandler [?one] ?heic ?png
          = (Inr [\<lparr>FileData.name = ''one.png'', bytes = [5]\<rparr>],
             [Call_heic2any (Blob [5] ''image/heic'') ''image/png''])"
    by (simp add: HEICHandler_doConvert_def isHeic_def example_format_def decodeHeic_def
        decodeHeic_body_def example_heic_host_def decoded_files_def strip_heic_ext_def
        ascii_lower_def)
  have rej: "heic2any example_heic_host (Blob (bytes ?bad) (mime ?heic)) (mime ?png)
          = Inl (WithMessage ''ERR_LIBHEIF format not supported'')"
    by (simp add: example_heic_host_def example_format_def)
  have rej': "heic2any example_heic_host (Blob [] ''image/heic'') ''image/png''
          = Inl (WithMessage ''ERR_LIBHEIF format not supported'')"
    by (simp add: example_heic_host_def)
  have m0: "meydaHandler.ready ready_meydaHandler \<and> audioContext ready_meydaHandler
      \<and> canvas ready_meydaHandler \<and> ctx ready_meydaHandler"
    by (simp add: ready_meydaHandler_eq)
  have m1: "meydaHandler_doConvert example_meyda_host ready_meydaHandler [] wav_format png_format
      = (Inr [], [])"
    by (simp add: ready_meydaHandler_eq meydaHandler_doConvert_def)
  have m2: "decodeAudioData example_meyda_host (bytes ?song)
      = Inl (WithMessage ''Unable to decode audio data'')"
    by (simp add: example_meyda_host_def)
  have m2': "decodeAudioData example_meyda_host []
      = Inl (WithMessage ''Unable to decode audio data'')"
    by (simp add: example_meyda_host_def)
  note t = decode_failure_reported [of ?heic ?png example_heic_host example_HEICHandler
      "[?one]" "[\<lparr>FileData.name = ''one.png'', bytes = [5]\<rparr>]"
      "[Call_heic2any (Blob [5] ''image/heic'') ''image/png'']" ?bad
      "WithMessage ''ERR_LIBHEIF format not supported''" "[?two]"
      ready_meydaHandler example_meyda_host "[]" wav_format png_format "[]" "[]" ?song
      "WithMessage ''Unable to decode audio data''" "[]"]
  have 1: "HEICHandler_doConvert example_heic_host example_HEICHandler
        ([?one] @ ?bad # [?two]) ?heic ?png
      = (Inl (WithMessage (''Could not decode HEIC/HEIF file '' @ dquote @ ''bad.heic''
                @ dquote @ '': ERR_LIBHEIF format not supported'')),
         [Call_heic2any (Blob [5] ''image/heic'') ''image/png'',
          Call_heic2any (Blob [] ''image/heic'') ''image/png''])"
    using t[THEN conjunct1] branch pre rej by (auto simp: example_format_def)
  have 2: "meydaHandler_doConvert example_meyda_host ready_meydaHandler ([] @ ?song # [])
        wav_format png_format
      = (Inl (WithMessage ''Unable to decode audio data''), [Call_decodeAudioData []])"
    using t[THEN conjunct2] m0 m1 m2 by auto
  show ?thesis using branch pre rej' m0 m2' 1 2 by blast
qed

text \<open>
  C6 as stated fails in the meyda handler: when the host rejects \<^verbatim>\<open>song.wav\<close>, the error
  of the conversion is the host's own and does not contain the file's name.
\<close>

theorem meyda_decode_failure_counterexample:
  "fst (meydaHandler_doConvert example_meyda_host ready_meydaHandler
         [\<lparr>FileData.name = ''song.wav'', bytes = []\<rparr>] wav_format png_format)
     = Inl (WithMessage ''Unable to decode audio data'')
   \<and> \<not> sublist ''song.wav'' (cause_text (WithMessage ''Unable to decode audio data''))"
  by (simp add: ready_meydaHandler_eq meydaHandler_doConvert_def meyda_body_def
      example_meyda_host_def sublist_code prefix_code)

text \<open>
  C7. The host declines to encode. As amended: in the encode branch of the HEIC handler,
  when \<^verbatim>\<open>canvas.toBlob\<close> gives \<^verbatim>\<open>null\<close> for an input file (the files before it being
  converted), the conversion fails, returning no output at all, with a message that says
  that HEIC/HEIF encoding is not supported in this browser and names PNG and JPEG as
  formats to convert to instead. In the meyda handler, when \<^verbatim>\<open>canvas.toBlob\<close> gives
  \<^verbatim>\<open>null\<close>, the conversion fails, returning no output, with \<^verbatim>\<open>Canvas output failed.\<close>
\<close>

theorem host_unavailable_encode:
  "(\<not> isHeic inputFormat \<and> isHeic outputFormat
      \<and> HEICHandler_doConvert H this before inputFormat outputFormat = (Inr pre, made)
      \<and> createImageBitmap H (Blob (bytes inputFile) (mime inputFormat)) = Inr bitmap
      \<and> getContext H (width bitmap) (height bitmap)
      \<and> toBlob H bitmap (mime outputFormat) = None
    \<longrightarrow> fst (HEICHandler_doConvert H this (before @ inputFile # after) inputFormat outputFormat)
          = Inl (WithMessage not_supported_message)
        \<and> sublist ''HEIC/HEIF encoding is not supported in this browser'' not_supported_message
        \<and> sublist ''PNG'' not_supported_message \<and> sublist ''JPEG'' not_supported_message
        \<and> names_a_format not_supported_message)
   \<and> (meydaHandler.ready that \<and> audioContext that \<and> canvas that \<and> ctx that
      \<and> meydaHandler_doConvert M that earlier audioFormat imageFormat = (Inr images, made_calls)
      \<and> decodeAudioData M (bytes audioFile) = Inr audio
      \<and> put_columns M 2048 (sampleRate audio) 1024 (channelData0 audio)
           [0 ..< length (channelData0 audio) div 2048] [] = Inr put
      \<and> canvas_toBlob M (length (channelData0 audio) div 2048) 1024 put (mime imageFormat) = None
    \<longrightarrow> fst (meydaHandler_doConvert M that (earlier @ audioFile # later) audioFormat imageFormat)
          = Inl (Plain ''Canvas output failed.''))"
proof (intro conjI impI)
  assume a: "\<not> isHeic inputFormat \<and> isHeic outputFormat
      \<and> HEICHandler_doConvert H this before inputFormat outputFormat = (Inr pre, made)
      \<and> createImageBitmap H (Blob (bytes inputFile) (mime inputFormat)) = Inr bitmap
      \<and> getContext H (width bitmap) (height bitmap)
      \<and> toBlob H bitmap (mime outputFormat) = None"
  let ?body = "encodeHeic_body H inputFormat outputFormat"
  have branch: "\<not> isHeic inputFormat" "isHeic outputFormat" using a by simp_all
  have pre: "for_inputFiles ?body before [] [] = (Inr pre, made)"
    using a branch by (simp add: doConvert_encode)
  have body: "?body inputFile = (Inl (WithMessage not_supported_message),
      [Call_createImageBitmap (Blob (bytes inputFile) (mime inputFormat)),
       Call_toBlob (mime outputFormat)])"
    using a encodeHeic_body_toBlob_fail by blast
  show "fst (HEICHandler_doConvert H this (before @ inputFile # after) inputFormat outputFormat)
          = Inl (WithMessage not_supported_message)"
    using for_inputFiles_fail_at[OF pre body] branch by (simp add: doConvert_encode)
next
  show "sublist ''HEIC/HEIF encoding is not supported in this browser'' not_supported_message"
    unfolding not_supported_message_def by (rule prefix_imp_sublist) simp
next
  have eq: "not_supported_message =
     (''HEIC/HEIF encoding is not supported in this browser. ''
       @ ''Native encoding requires Safari on macOS (High Sierra or later) or iOS (11 or later). ''
       @ ''Consider converting to '') @ ''PNG'' @ '' or JPEG instead.''"
    by (simp add: not_supported_message_def)
  show "sublist ''PNG'' not_supported_message"
    by (subst eq) (rule sublist_appendI)
next
  have eq: "not_supported_message =
     (''HEIC/HEIF encoding is not supported in this browser. ''
       @ ''Native encoding requires Safari on macOS (High Sierra or later) or iOS (11 or later). ''
       @ ''Consider converting to PNG or '') @ ''JPEG'' @ '' instead.''"
    by (simp add: not_supported_message_def)
  show "sublist ''JPEG'' not_supported_message"
    by (subst eq) (rule sublist_appendI)
next
  have low: "map ascii_lower ''HEIC'' = ''heic''" by (simp add: ascii_lower_def)
  have eq: "not_supported_message = ''HEIC'' @ drop 4 not_supported_message"
    by (simp add: not_supported_message_def)
  have "map ascii_lower not_supported_message
          = ''heic'' @ map ascii_lower (drop 4 not_supported_message)"
    by (subst eq) (simp only: map_append low)
  then have "sublist ''heic'' (map ascii_lower not_supported_message)"
    by (simp only: sublist_append_rightI)
  then show "names_a_format not_supported_message"
    by (simp add: names_a_format_def format_tags_def)
next
  assume a: "meydaHandler.ready that \<and> audioContext that \<and> canvas that \<and> ctx that
      \<and> meydaHandler_doConvert M that earlier audioFormat imageFormat = (Inr images, made_calls)
      \<and> decodeAudioData M (bytes audioFile) = Inr audio
      \<and> put_columns M 2048 (sampleRate audio) 1024 (channelData0 audio)
           [0 ..< length (channelData0 audio) div 2048] [] = Inr put
      \<and> canvas_toBlob M (length (channelData0 audio) div 2048) 1024 put (mime imageFormat) = None"
  let ?body = "meyda_body M imageFormat"
  have conv: "meydaHandler_doConvert M that fs audioFormat imageFormat
           = for_inputFiles ?body fs [] []" for fs
    using a by (simp add: doConvert_meyda_ready)
  have pre: "for_inputFiles ?body earlier [] [] = (Inr images, made_calls)"
    using a conv by simp
  have body: "?body audioFile = (Inl (Plain ''Canvas output failed.''),
      [Call_decodeAudioData (bytes audioFile), Call_toBlob (mime imageFormat)])"
    using a meyda_body_toBlob_fail by blast
  show "fst (meydaHandler_doConvert M that (earlier @ audioFile # later) audioFormat imageFormat)
          = Inl (Plain ''Canvas output failed.'')"
    using for_inputFiles_fail_at[OF pre body] conv by simp
qed


theorem host_unavailable_encode_witness:
  "(\<not> isHeic (example_format ''png'' ''image/png'')
      \<and> isHeic (example_format ''heic'' ''image/heic'')
      \<and> createImageBitmap example_heic_host (Blob [9] ''image/png'')
          = Inr \<lparr>width = 1, height = 1, image_data = [9]\<rparr>
      \<and> toBlob example_heic_host \<lparr>width = 1, height = 1, image_data = [9]\<rparr> ''image/heic''
          = None)
   \<and> fst (HEICHandler_doConvert example_heic_host example_HEICHandler
            ([] @ \<lparr>FileData.name = ''a.png'', bytes = [9]\<rparr> # [])
            (example_format ''png'' ''image/png'') (example_format ''heic'' ''image/heic''))
       = Inl (WithMessage not_supported_message)
   \<and> names_a_format not_supported_message
   \<and> (decodeAudioData example_meyda_host [1]
          = Inr \<lparr>sampleRate = 44100, channelData0 = replicate 1024 0\<rparr>
      \<and> canvas_toBlob example_meyda_host 0 1024 [] ''image/png'' = None)
   \<and> fst (meydaHandler_doConvert example_meyda_host ready_meydaHandler
            ([] @ \<lparr>FileData.name = ''short.wav'', bytes = [1]\<rparr> # []) wav_format png_format)
       = Inl (Plain ''Canvas output failed.'')"
proof -
  let ?png = "example_format ''png'' ''image/png''"
  let ?heic = "example_format ''heic'' ''image/heic''"
  let ?f = "\<lparr>FileData.name = ''a.png'', bytes = [9]\<rparr>"
  let ?bm = "\<lparr>width = 1, height = 1, image_data = [9]\<rparr>"
  let ?a = "\<lparr>FileData.name = ''short.wav'', bytes = [1]\<rparr>"
  let ?audio = "\<lparr>sampleRate = 44100, channelData0 = replicate 1024 (0::int)\<rparr>"
  have branch: "\<not> isHeic ?png \<and> isHeic ?heic"
    by (simp add: isHeic_def example_format_def)
  have pre: "HEICHandler_doConvert example_heic_host example_HEICHandler [] ?png ?heic
          = (Inr [], [])"
    using branch by (simp add: doConvert_encode)
  have bm: "createImageBitmap example_heic_host (Blob (bytes ?f) (mime ?png)) = Inr ?bm"
    by (simp add: example_heic_host_def example_format_def)
  have bm': "createImageBitmap example_heic_host (Blob [9] ''image/png'') = Inr ?bm"
    by (simp add: example_heic_host_def)
  have gc: "getContext example_heic_host (width ?bm) (height ?bm)"
    by (simp add: example_heic_host_def)
  have tb: "toBlob example_heic_host ?bm (mime ?heic) = None"
    by (simp add: example_heic_host_def example_format_def)
  have tb': "toBlob example_heic_host ?bm ''image/heic'' = None"
    by (simp add: example_heic_host_def)
  have m0: "meydaHandler.ready ready_meydaHandler \<and> audioContext ready_meydaHandler
      \<and> canvas ready_meydaHandler \<and> ctx ready_meydaHandler"
    by (simp add: ready_meydaHandler_eq)
  have m1: "meydaHandler_doConvert example_meyda_host ready_meydaHandler [] wav_format png_format
      = (Inr [], [])"
    by (simp add: ready_meydaHandler_eq meydaHandler_doConvert_def)
  have m2: "decodeAudioData example_meyda_host (bytes ?a) = Inr ?audio"
    by (simp add: example_meyda_host_def)
  have m2': "decodeAudioData example_meyda_host [1] = Inr ?audio"
    by (simp add: example_meyda_host_def)
  have m3: "put_columns example_meyda_host 2048 (sampleRate ?audio) 1024 (channelData0 ?audio)
           [0 ..< length (channelData0 ?audio) div 2048] [] = Inr []"
    by simp
  have m4: "canvas_toBlob example_meyda_host (length (channelData0 ?audio) div 2048) 1024 []
           (mime png_format) = None"
    by (simp add: example_meyda_host_def)
  have m4': "canvas_toBlob example_meyda_host 0 1024 [] ''image/png'' = None"
    by (simp add: example_meyda_host_def)
  note t = host_unavailable_encode [of ?png ?heic example_heic_host example_HEICHandler "[]"
      "[]" "[]" ?f ?bm "[]" ready_meydaHandler example_meyda_host "[]" wav_format png_format
      "[]" "[]" ?a ?audio "[]" "[]"]
  have 1: "fst (HEICHandler_doConvert example_heic_host example_HEICHandler ([] @ ?f # [])
            ?png ?heic) = Inl (WithMessage not_supported_message)
        \<and> names_a_format not_supported_message"
    using t[THEN conjunct1] branch pre bm gc tb by blast
  have 2: "fst (meydaHandler_doConvert example_meyda_host ready_meydaHandler ([] @ ?a # [])
            wav_format png_format) = Inl (Plain ''Canvas output failed.'')"
    using t[THEN conjunct2] m0 m1 m2 m3 m4 by blast
  show ?thesis using branch bm' tb' 1 m2' m4' 2 by blast
qed

text \<open>
  C7 as stated fails in the meyda handler: when the canvas gives no bytes (here for an audio
  file too short for one column), the error is \<^verbatim>\<open>Canvas output failed.\<close>, which names no
  format to fall back to.
\<close>

theorem meyda_canvas_failure_counterexample:
  "fst (meydaHandler_doConvert example_meyda_host ready_meydaHandler
         [\<lparr>FileData.name = ''short.wav'', bytes = [1]\<rparr>] wav_format png_format)
     = Inl (Plain ''Canvas output failed.'')
   \<and> \<not> names_a_format (cause_text (Plain ''Canvas output failed.''))"
proof -
  have "fst (meydaHandler_doConvert example_meyda_host ready_meydaHandler
         [\<lparr>FileData.name = ''short.wav'', bytes = [1]\<rparr>] wav_format png_format)
     = Inl (Plain ''Canvas output failed.'')"
    by (simp add: ready_meydaHandler_eq meydaHandler_doConvert_def meyda_body_def
        example_meyda_host_def png_format_def)
  moreover have "\<not> names_a_format (cause_text (Plain ''Canvas output failed.''))"
    by (simp add: names_a_format_def format_tags_def ascii_lower_def sublist_code prefix_code)
  ultimately show ?thesis by simp
qed

text \<open>
  C8. Probing twice. As amended: in the HEIC and ANI handlers a second \<^verbatim>\<open>init\<close> leaves the
  list of supported formats as the first left it. The meyda handler has no guard against
  a second \<^verbatim>\<open>init\<close>: it appends once more every audio descriptor whose playability test
  succeeds, so its list is unchanged only when no audio format is playable.
\<close>

theorem probe_twice:
  "HEICHandler.supportedFormats (HEICHandler_init (HEICHandler_init heic))
     = HEICHandler.supportedFormats (HEICHandler_init heic)
   \<and> aniHandler.supportedFormats (aniHandler_init png_apng (aniHandler_init png_apng ani))
     = aniHandler.supportedFormats (aniHandler_init png_apng ani)
   \<and> meydaHandler.supportedFormats (snd (meydaHandler_init M (snd (meydaHandler_init M meyda))))
     = meydaHandler.supportedFormats (snd (meydaHandler_init M meyda)) @ probed_formats M
   \<and> ((meydaHandler.supportedFormats (snd (meydaHandler_init M (snd (meydaHandler_init M meyda))))
        = meydaHandler.supportedFormats (snd (meydaHandler_init M meyda)))
       = (probed_formats M = []))"
  by (simp add: HEICHandler_init_def aniHandler_init_def meydaHandler_init_formats)

theorem probe_twice_witness:
  "HEICHandler.supportedFormats (HEICHandler_init (HEICHandler_init example_HEICHandler))
     = HEICHandler.supportedFormats (HEICHandler_init example_HEICHandler)
   \<and> aniHandler.supportedFormats
       (aniHandler_init (example_format ''apng'' ''image/apng'')
         (aniHandler_init (example_format ''apng'' ''image/apng'') new_aniHandler))
     = Some [example_format ''apng'' ''image/apng'', ico_format, ani_format]
   \<and> meydaHandler.supportedFormats
       (snd (meydaHandler_init example_meyda_host
              (snd (meydaHandler_init example_meyda_host new_meydaHandler))))
     = [png_format, jpeg_format, webp_format, wav_format, mp3_format, wav_format, mp3_format]"
  using probe_twice [of example_HEICHandler "example_format ''apng'' ''image/apng''"
      new_aniHandler example_meyda_host new_meydaHandler]
  by (simp add: aniHandler_init_def meydaHandler_init_formats new_meydaHandler_def
      probed_formats_def example_meyda_host_def)

text \<open>
  C8 as stated fails in the meyda handler: on a host that plays WAV and MP3, the second
  \<^verbatim>\<open>init\<close> changes the list of supported formats (both descriptors are listed twice).
\<close>

theorem meyda_probe_twice_counterexample:
  "meydaHandler.supportedFormats
       (snd (meydaHandler_init example_meyda_host
              (snd (meydaHandler_init example_meyda_host new_meydaHandler))))
     \<noteq> meydaHandler.supportedFormats
         (snd (meydaHandler_init example_meyda_host new_meydaHandler))"
  by (simp add: meydaHandler_init_formats new_meydaHandler_def probed_formats_def
      example_meyda_host_def)

text \<open>
  C9. The capabilities of the meyda handler. After any number of runs of \<^verbatim>\<open>init\<close> on the
  newly built handler, every descriptor in its list is an image descriptor or an audio
  descriptor; an image descriptor has \<^verbatim>\<open>to\<close> true and \<^verbatim>\<open>from\<close> false; an audio descriptor
  has \<^verbatim>\<open>from\<close> true and \<^verbatim>\<open>to\<close> false, and is there only if the host's \<^verbatim>\<open>canPlayType\<close>
  answered for its MIME type with a non-empty string. So no descriptor lets an image be
  read or an audio file be written.
\<close>

theorem meyda_capabilities_one_way:
  assumes "d \<in> set (meydaHandler.supportedFormats (probes M n new_meydaHandler))"
  shows "(is_image d \<or> is_audio d)
       \<and> (is_image d \<longrightarrow> to_flag d \<and> \<not> from_flag d)
       \<and> (is_audio d \<longrightarrow> from_flag d \<and> \<not> to_flag d \<and> canPlayType M (mime d) \<noteq> [])
       \<and> \<not> (is_image d \<and> from_flag d) \<and> \<not> (is_audio d \<and> to_flag d)"
proof -
  have "d \<in> set (meydaHandler.supportedFormats new_meydaHandler) \<union> set (probed_formats M)"
    using assms probes_formats by blast
  then consider "d = png_format" | "d = jpeg_format" | "d = webp_format"
    | "d = wav_format" "canPlayType M ''audio/wav'' \<noteq> []"
    | "d = mp3_format" "canPlayType M ''audio/mpeg'' \<noteq> []"
    | "d = ogg_format" "canPlayType M ''audio/ogg'' \<noteq> []"
    | "d = flac_format" "canPlayType M ''audio/flac'' \<noteq> []"
    using probed_formats_cases[of d M] by (auto simp: new_meydaHandler_def)
  then show ?thesis
  proof cases
    case 1 then show ?thesis by (simp add: png_format_def is_image_def is_audio_def)
  next
    case 2 then show ?thesis by (simp add: jpeg_format_def is_image_def is_audio_def)
  next
    case 3 then show ?thesis by (simp add: webp_format_def is_image_def is_audio_def)
  next
    case 4 then show ?thesis by (simp add: wav_format_def is_image_def is_audio_def)
  next
    case 5 then show ?thesis by (simp add: mp3_format_def is_image_def is_audio_def)
  next
    case 6 then show ?thesis by (simp add: ogg_format_def is_image_def is_audio_def)
  next
    case 7 then show ?thesis by (simp add: flac_format_def is_image_def is_audio_def)
  qed
qed

theorem meyda_capabilities_one_way_witness:
  "wav_format \<in> set (meydaHandler.supportedFormats (probes example_meyda_host 1 new_meydaHandler))
   \<and> is_audio wav_format \<and> from_flag wav_format \<and> \<not> to_flag wav_format
   \<and> canPlayType example_meyda_host (mime wav_format) \<noteq> []
   \<and> png_format \<in> set (meydaHandler.supportedFormats (probes example_meyda_host 1 new_meydaHandler))
   \<and> is_image png_format \<and> to_flag png_format \<and> \<not> from_flag png_format"
proof -
  have fs: "meydaHandler.supportedFormats (probes example_meyda_host 1 new_meydaHandler)
      = [png_format, jpeg_format, webp_format, wav_format, mp3_format]"
    by (simp add: meydaHandler_init_formats new_meydaHandler_def probed_formats_def
        example_meyda_host_def)
  have w: "wav_format \<in> set (meydaHandler.supportedFormats
      (probes example_meyda_host 1 new_meydaHandler))"
    by (subst fs) simp
  have p: "png_format \<in> set (meydaHandler.supportedFormats
      (probes example_meyda_host 1 new_meydaHandler))"
    by (subst fs) simp
  have wa: "is_audio wav_format" by (simp add: is_audio_def wav_format_def)
  have pi: "is_image png_format" by (simp add: is_image_def png_format_def)
  show ?thesis
    using w p wa pi meyda_capabilities_one_way[OF w] meyda_capabilities_one_way[OF p]
    by blast
qed

end
